theory Spec2Isabelle
  imports Complex_Main "HOL-Library.Sublist"
begin

section \<open>Python values\<close>

text \<open>
  The handler \<^verbatim>\<open>chat_api\<close> of \<^verbatim>\<open>src/app.py\<close> works on what \<^verbatim>\<open>json.loads\<close> returns and on
  the JSON bodies of its providers. A decoded value is \<^verbatim>\<open>None\<close>, a \<^verbatim>\<open>bool\<close>, an \<^verbatim>\<open>int\<close>,
  a \<^verbatim>\<open>float\<close>, a \<^verbatim>\<open>str\<close>, a \<^verbatim>\<open>list\<close> or a \<^verbatim>\<open>dict\<close> with string keys. A \<^verbatim>\<open>dict\<close> keeps
  the order in which its keys were inserted, and the handler reads the first key of a
  command object, so a \<^verbatim>\<open>dict\<close> is an association list. A \<^verbatim>\<open>str\<close> is a list of
  \<^typ>\<open>char\<close>, one per code point. Only code points up to 255 are modelled: a string
  with a code point beyond (a lone surrogate among them, which \<^verbatim>\<open>sqlite3\<close> cannot encode)
  is outside the model.
\<close>

datatype pyfloat = Finite rat | PlusInfinity | MinusInfinity | NaN

datatype json =
    JNull
  | JBool bool
  | JInt int
  | JFloat pyfloat
  | JStr string
  | JArr "json list"
  | JObj "(string \<times> json) list"

text \<open>The exceptions that the code of \<^verbatim>\<open>src/app.py\<close> can meet, by class.\<close>

datatype py_error =
    JSONDecodeError   \<comment> \<open>\<^verbatim>\<open>json.JSONDecodeError\<close>, raised by \<^verbatim>\<open>json.loads\<close>\<close>
  | ApiError          \<comment> \<open>a failure of the model, YouTube or Spotify client\<close>
  | RequestException  \<comment> \<open>\<^verbatim>\<open>requests.exceptions.RequestException\<close> and its subclasses\<close>
  | KeyError
  | IndexError
  | TypeError
  | AttributeError
  | OverflowError
  | RecursionError    \<comment> \<open>the interpreter's recursion limit is reached\<close>
  | ValueError
  | IntegrityError    \<comment> \<open>\<^verbatim>\<open>sqlite3.IntegrityError\<close>: a constraint of the schema is violated\<close>
  | InterfaceError    \<comment> \<open>\<^verbatim>\<open>sqlite3\<close> cannot bind a parameter of this type\<close>

text \<open>Truth value of a value in a condition (\<^verbatim>\<open>if x:\<close>, \<^verbatim>\<open>if not x:\<close>).\<close>

fun truthy :: "json \<Rightarrow> bool" where
  "truthy JNull = False"
| "truthy (JBool b) = b"
| "truthy (JInt i) = (i \<noteq> 0)"
| "truthy (JFloat f) = (f \<noteq> Finite 0)"
| "truthy (JStr s) = (s \<noteq> [])"
| "truthy (JArr xs) = (xs \<noteq> [])"
| "truthy (JObj kvs) = (kvs \<noteq> [])"

text \<open>
  Sequencing of two steps that may raise: the exception of the first step is the
  exception of the whole, otherwise the second step runs on the first one's value.
\<close>

fun and_then :: "py_error + 'a \<Rightarrow> ('a \<Rightarrow> py_error + 'b) \<Rightarrow> py_error + 'b" where
  "and_then (Inl e) f = Inl e"
| "and_then (Inr x) f = f x"

text \<open>\<^verbatim>\<open>d.get(key, default)\<close>: only a \<^verbatim>\<open>dict\<close> has the method.\<close>

fun dict_get :: "json \<Rightarrow> string \<Rightarrow> json \<Rightarrow> py_error + json" where
  "dict_get (JObj kvs) key dflt = Inr (case map_of kvs key of None \<Rightarrow> dflt | Some v \<Rightarrow> v)"
| "dict_get _ key dflt = Inl AttributeError"

text \<open>\<^verbatim>\<open>list(d.keys())\<close>: only a \<^verbatim>\<open>dict\<close> has the method.\<close>

fun dict_keys :: "json \<Rightarrow> py_error + string list" where
  "dict_keys (JObj kvs) = Inr (map fst kvs)"
| "dict_keys _ = Inl AttributeError"

text \<open>\<^verbatim>\<open>x[key]\<close> with a string key.\<close>

fun getitem_key :: "json \<Rightarrow> string \<Rightarrow> py_error + json" where
  "getitem_key (JObj kvs) key = (case map_of kvs key of None \<Rightarrow> Inl KeyError | Some v \<Rightarrow> Inr v)"
| "getitem_key _ key = Inl TypeError"

text \<open>
  \<^verbatim>\<open>x[0]\<close>. The keys of a decoded \<^verbatim>\<open>dict\<close> are strings, so the integer key is missing;
  a string yields its first character.
\<close>

fun getitem_0 :: "json \<Rightarrow> py_error + json" where
  "getitem_0 (JArr []) = Inl IndexError"
| "getitem_0 (JArr (x # xs)) = Inr x"
| "getitem_0 (JStr []) = Inl IndexError"
| "getitem_0 (JStr (c # cs)) = Inr (JStr [c])"
| "getitem_0 (JObj kvs) = Inl KeyError"
| "getitem_0 _ = Inl TypeError"

text \<open>
  \<^verbatim>\<open>d[key] = v\<close>: a key that is present keeps its place, a new key goes last.
\<close>

fun dict_setitem :: "(string \<times> json) list \<Rightarrow> string \<Rightarrow> json \<Rightarrow> (string \<times> json) list" where
  "dict_setitem [] key v = [(key, v)]"
| "dict_setitem ((k, w) # kvs) key v =
     (if k = key then (k, v) # kvs else (k, w) # dict_setitem kvs key v)"

text \<open>
  \<^verbatim>\<open>for item in x\<close>: a list yields its elements, a \<^verbatim>\<open>dict\<close> its keys, a string its
  characters; nothing else can be iterated.
\<close>

fun py_iter :: "json \<Rightarrow> py_error + json list" where
  "py_iter (JArr xs) = Inr xs"
| "py_iter (JObj kvs) = Inr (map (\<lambda>kv. JStr (fst kv)) kvs)"
| "py_iter (JStr s) = Inr (map (\<lambda>c. JStr [c]) s)"
| "py_iter _ = Inl TypeError"

text \<open>
  How deeply a value is nested: a list or a \<^verbatim>\<open>dict\<close> is one level above its deepest
  element, everything else is level 0.
\<close>

fun depth :: "json \<Rightarrow> nat" where
  "depth (JArr xs) = Suc (fold max (map depth xs) 0)"
| "depth (JObj kvs) = Suc (fold max (map (\<lambda>kv. depth (snd kv)) kvs) 0)"
| "depth _ = 0"

text \<open>\<^verbatim>\<open>sep.join(xs)\<close>: every element must be a string.\<close>

fun str_join :: "string \<Rightarrow> json list \<Rightarrow> py_error + string" where
  "str_join sep [] = Inr []"
| "str_join sep [JStr s] = Inr s"
| "str_join sep (JStr s # x # xs) = and_then (str_join sep (x # xs)) (\<lambda>r. Inr (s @ sep @ r))"
| "str_join sep (_ # xs) = Inl TypeError"

text \<open>
  \<^verbatim>\<open>" ".join(confirmation_speech)\<close> on a list whose elements are strings by construction.
\<close>

fun join :: "string \<Rightarrow> string list \<Rightarrow> string" where
  "join sep [] = []"
| "join sep [s] = s"
| "join sep (s # t # ts) = s @ sep @ join sep (t # ts)"

text \<open>\<^verbatim>\<open>str.isspace\<close> on one code point below 256, and \<^verbatim>\<open>str.strip()\<close>.\<close>

definition isspace :: "char \<Rightarrow> bool" where
  "isspace c = (c \<in> set [CHR 0x09, CHR 0x0A, CHR 0x0B, CHR 0x0C, CHR 0x0D,
                           CHR 0x1C, CHR 0x1D, CHR 0x1E, CHR 0x1F, CHR 0x20,
                           CHR 0x85, CHR 0xA0])"

definition strip :: "string \<Rightarrow> string" where
  "strip s = rev (dropWhile isspace (rev (dropWhile isspace s)))"

text \<open>
  \<^verbatim>\<open>s.replace(old, new)\<close> for a non-empty \<^verbatim>\<open>old\<close>: occurrences are replaced from left to
  right, without overlap.
\<close>

fun replace :: "string \<Rightarrow> string \<Rightarrow> string \<Rightarrow> string" where
  "replace old new [] = []"
| "replace old new (c # cs) =
     (if old \<noteq> [] \<and> prefix old (c # cs)
      then new @ replace old new (drop (length old) (c # cs))
      else c # replace old new cs)"

text \<open>Decimal digits of a number, as \<^verbatim>\<open>str(n)\<close> and \<^verbatim>\<open>{n}\<close> in an f-string print them.\<close>

definition digit :: "nat \<Rightarrow> char" where
  "digit n = ''0123456789'' ! (n mod 10)"

fun str_nat :: "nat \<Rightarrow> string" where
  "str_nat n = (if n < 10 then [digit n] else str_nat (n div 10) @ [digit n])"

declare str_nat.simps [simp del]

definition str_int :: "int \<Rightarrow> string" where
  "str_int i = (if i < 0 then CHR ''-'' # str_nat (nat (- i)) else str_nat (nat i))"

section \<open>The wall clock\<close>

text \<open>
  A reading of \<^verbatim>\<open>datetime.now()\<close> and the \<^verbatim>\<open>strftime\<close> directives the handler uses, in
  the C locale a Python process starts in: \<^verbatim>\<open>%I\<close> is the hour of the 12-hour clock and
  \<^verbatim>\<open>%M\<close>, \<^verbatim>\<open>%d\<close>, \<^verbatim>\<open>%m\<close> are the minute, day and month, each as two digits; \<^verbatim>\<open>%p\<close> is
  AM or PM; \<^verbatim>\<open>%A\<close> and \<^verbatim>\<open>%B\<close> are the full names of the weekday and the month; \<^verbatim>\<open>%Y\<close> is
  the year in decimal.
\<close>

datatype weekday = Monday | Tuesday | Wednesday | Thursday | Friday | Saturday | Sunday

datatype month =
    January | February | March | April | May | June
  | July | August | September | October | November | December

record datetime =
  year :: nat
  month :: month
  day :: nat
  hour :: nat
  minute :: nat
  weekday :: weekday

fun weekday_name :: "weekday \<Rightarrow> string" where
  "weekday_name Monday = ''Monday''"
| "weekday_name Tuesday = ''Tuesday''"
| "weekday_name Wednesday = ''Wednesday''"
| "weekday_name Thursday = ''Thursday''"
| "weekday_name Friday = ''Friday''"
| "weekday_name Saturday = ''Saturday''"
| "weekday_name Sunday = ''Sunday''"

fun month_name :: "month \<Rightarrow> string" where
  "month_name January = ''January''"
| "month_name February = ''February''"
| "month_name March = ''March''"
| "month_name April = ''April''"
| "month_name May = ''May''"
| "month_name June = ''June''"
| "month_name July = ''July''"
| "month_name August = ''August''"
| "month_name September = ''September''"
| "month_name October = ''October''"
| "month_name November = ''November''"
| "month_name December = ''December''"

fun month_number :: "month \<Rightarrow> nat" where
  "month_number January = 1"
| "month_number February = 2"
| "month_number March = 3"
| "month_number April = 4"
| "month_number May = 5"
| "month_number June = 6"
| "month_number July = 7"
| "month_number August = 8"
| "month_number September = 9"
| "month_number October = 10"
| "month_number November = 11"
| "month_number December = 12"

definition two_digits :: "nat \<Rightarrow> string" where
  "two_digits n = [digit (n div 10), digit n]"

definition hour12 :: "nat \<Rightarrow> nat" where
  "hour12 h = (if h mod 12 = 0 then 12 else h mod 12)"

definition directive :: "char \<Rightarrow> datetime \<Rightarrow> string" where
  "directive d t =
     (if d = CHR ''I'' then two_digits (hour12 (hour t))
      else if d = CHR ''M'' then two_digits (minute t)
      else if d = CHR ''p'' then (if hour t < 12 then ''AM'' else ''PM'')
      else if d = CHR ''A'' then weekday_name (weekday t)
      else if d = CHR ''B'' then month_name (month t)
      else if d = CHR ''d'' then two_digits (day t)
      else if d = CHR ''m'' then two_digits (month_number (month t))
      else if d = CHR ''Y'' then str_nat (year t)
      else [CHR ''%'', d])"

fun strftime :: "datetime \<Rightarrow> string \<Rightarrow> string" where
  "strftime t [] = []"
| "strftime t [c] = [c]"
| "strftime t (c # d # fmt) =
     (if c = CHR ''%'' then directive d t @ strftime t fmt else c # strftime t (d # fmt))"

section \<open>The world outside the handler\<close>

text \<open>
  The module's globals and everything the handler calls but does not define. A remote
  call may answer differently each time it is made, so every remote answer and every
  clock reading is a function of the position \<open>i\<close> of the command being processed (the
  pass of the loop over the model's command list in which the call is made) and of the
  arguments of the call.
\<close>

record youtube_client =
  search_list :: "nat \<Rightarrow> json \<Rightarrow> py_error + json"
    \<comment> \<open>\<^verbatim>\<open>youtube.search().list(q=..., part='id', maxResults=5, type='video').execute()\<close>\<close>
  videos_list :: "nat \<Rightarrow> string \<Rightarrow> py_error + json"
    \<comment> \<open>\<^verbatim>\<open>youtube.videos().list(part='status', id=...).execute()\<close>\<close>

record spotify_client =
  spotify_search :: "nat \<Rightarrow> string \<Rightarrow> py_error + json"
    \<comment> \<open>\<^verbatim>\<open>spotify.search(q=..., type='track', limit=1)\<close>\<close>

record http_response =
  http_error :: bool
    \<comment> \<open>the status is 4xx or 5xx: \<^verbatim>\<open>raise_for_status()\<close> raises \<^verbatim>\<open>HTTPError\<close>\<close>
  json_body :: "json option"
    \<comment> \<open>\<^verbatim>\<open>response.json()\<close>; \<open>None\<close> when the body is not JSON and \<^verbatim>\<open>requests\<close> raises its
       own \<^verbatim>\<open>JSONDecodeError\<close>, a \<^verbatim>\<open>RequestException\<close>\<close>

record conversation =
  user_id :: int
  user_message :: string
  bot_response :: string

type_synonym db = "conversation list"

record world =
  model :: "(conversation list \<Rightarrow> json \<Rightarrow> string option) option"
    \<comment> \<open>the global \<^verbatim>\<open>model\<close>; applied to the user's history and query it is
       \<^verbatim>\<open>model.generate_content(full_prompt).text\<close>, \<open>None\<close> when that raises\<close>
  json_loads :: "string \<Rightarrow> py_error + json"
    \<comment> \<open>\<^verbatim>\<open>json.loads\<close>: it raises \<^verbatim>\<open>JSONDecodeError\<close> on a text that is not JSON, and
       \<^verbatim>\<open>RecursionError\<close> or \<^verbatim>\<open>ValueError\<close> on JSON nested too deeply or with too long a
       number\<close>
  jsonify_headroom :: nat
    \<comment> \<open>how many levels beyond four \<^verbatim>\<open>jsonify\<close> can serialise in this process\<close>
  sqlite_real_text :: "pyfloat \<Rightarrow> string"
    \<comment> \<open>the text that a \<^verbatim>\<open>TEXT\<close> column of SQLite keeps for a float\<close>
  py_repr :: "json \<Rightarrow> string"
    \<comment> \<open>\<^verbatim>\<open>str(x)\<close> of a float, a list or a \<^verbatim>\<open>dict\<close>\<close>
  datetime_now :: "nat \<Rightarrow> datetime"
  youtube :: "youtube_client option"
  spotify :: "spotify_client option"
  WEATHER_API_KEY :: "string option"
  requests_get :: "nat \<Rightarrow> string \<Rightarrow> (string \<times> json) list \<Rightarrow> py_error + http_response"

text \<open>A value interpolated into an f-string: \<^verbatim>\<open>f"{x}"\<close> is \<^verbatim>\<open>str(x)\<close>.\<close>

fun py_format :: "world \<Rightarrow> json \<Rightarrow> string" where
  "py_format env (JStr s) = s"
| "py_format env JNull = ''None''"
| "py_format env (JBool b) = (if b then ''True'' else ''False'')"
| "py_format env (JInt i) = str_int i"
| "py_format env v = py_repr env v"

section \<open>Provider adapters\<close>

text \<open>
  Each adapter returns \<open>Inr\<close> of what the Python function returns, or \<open>Inl\<close> of the
  exception that leaves it. The body of each \<^verbatim>\<open>try\<close> is a definition of its own, so
  that the \<^verbatim>\<open>except\<close> clauses read as in the source. A value that an f-string puts
  between apostrophes is written \<open>quoted\<close>.
\<close>

definition quoted :: "string \<Rightarrow> string" where
  "quoted s = [CHR 0x27] @ s @ [CHR 0x27]"

subsection \<open>\<^verbatim>\<open>get_youtube_video_url\<close>\<close>

text \<open>\<^verbatim>\<open>[item['id']['videoId'] for item in items]\<close>\<close>

fun video_ids_of :: "json list \<Rightarrow> py_error + json list" where
  "video_ids_of [] = Inr []"
| "video_ids_of (item # items) =
     and_then (getitem_key item ''id'') (\<lambda>ident.
     and_then (getitem_key ident ''videoId'') (\<lambda>video_id.
     and_then (video_ids_of items) (\<lambda>video_ids.
     Inr (video_id # video_ids))))"

text \<open>
  The loop over the details of the videos: the first embeddable one is returned; when
  the loop ends without one, the function returns its last message.
\<close>

fun first_embeddable :: "world \<Rightarrow> json \<Rightarrow> json list \<Rightarrow> py_error + string option \<times> string" where
  "first_embeddable env search_term [] =
     Inr (None, ''Sorry, I found videos for '' @ quoted (py_format env search_term) @
                '', but none of them can be played here.'')"
| "first_embeddable env search_term (item # items) =
     and_then (getitem_key item ''status'') (\<lambda>status.
     and_then (getitem_key status ''embeddable'') (\<lambda>embeddable.
     if truthy embeddable
     then and_then (getitem_key item ''id'') (\<lambda>embeddable_video_id.
          Inr (Some (''https://www.youtube.com/embed/'' @ py_format env embeddable_video_id),
               ''Playing the top result for '' @ quoted (py_format env search_term) @
               '' on YouTube.''))
     else first_embeddable env search_term items))"

definition youtube_try :: "world \<Rightarrow> youtube_client \<Rightarrow> nat \<Rightarrow> json \<Rightarrow> py_error + string option \<times> string" where
  "youtube_try env yt i search_term =
     and_then (search_list yt i search_term) (\<lambda>search_response.
     and_then (dict_get search_response ''items'' (JArr [])) (\<lambda>found.
     and_then (py_iter found) (\<lambda>items.
     and_then (video_ids_of items) (\<lambda>video_ids.
     if video_ids = []
     then Inr (None, ''I couldn't find any YouTube videos for '' @
                     quoted (py_format env search_term) @ ''.'')
     else
     and_then (str_join '','' video_ids) (\<lambda>ids.
     and_then (videos_list yt i ids) (\<lambda>video_details_response.
     and_then (dict_get video_details_response ''items'' (JArr [])) (\<lambda>details.
     and_then (py_iter details) (\<lambda>items'.
     first_embeddable env search_term items'))))))))"

text \<open>\<^verbatim>\<open>except Exception\<close> catches whatever the body raises.\<close>

definition get_youtube_video_url :: "world \<Rightarrow> nat \<Rightarrow> json \<Rightarrow> py_error + string option \<times> string" where
  "get_youtube_video_url env i search_term =
     (case youtube env of
        None \<Rightarrow> Inr (None, ''YouTube API is not configured.'')
      | Some yt \<Rightarrow>
          (case youtube_try env yt i search_term of
             Inr r \<Rightarrow> Inr r
           | Inl e \<Rightarrow> Inr (None, ''Sorry, I couldn't find a video for '' @
                                 quoted (py_format env search_term) @ '' on YouTube.'')))"

subsection \<open>\<^verbatim>\<open>get_spotify_track_url\<close>\<close>

definition spotify_try :: "world \<Rightarrow> spotify_client \<Rightarrow> nat \<Rightarrow> json \<Rightarrow> py_error + string option \<times> string" where
  "spotify_try env sp i search_term =
     (let not_found = (None, ''Sorry, I couldn't find the song '' @
                             quoted (py_format env search_term) @ '' on Spotify.'') in
      and_then (spotify_search sp i (''track:'' @ py_format env search_term)) (\<lambda>results.
      if \<not> truthy results then Inr not_found else
      and_then (getitem_key results ''tracks'') (\<lambda>tracks.
      and_then (getitem_key tracks ''items'') (\<lambda>items.
      if \<not> truthy items then Inr not_found else
      and_then (getitem_0 items) (\<lambda>track.
      and_then (getitem_key track ''id'') (\<lambda>track_id.
      and_then (getitem_key track ''name'') (\<lambda>track_name.
      Inr (Some (''https://open.spotify.com/embed/track/'' @ py_format env track_id),
           ''Playing '' @ quoted (py_format env track_name) @ '' on Spotify.''))))))))"

definition get_spotify_track_url :: "world \<Rightarrow> nat \<Rightarrow> json \<Rightarrow> py_error + string option \<times> string" where
  "get_spotify_track_url env i search_term =
     (case spotify env of
        None \<Rightarrow> Inr (None, ''Spotify API is not configured.'')
      | Some sp \<Rightarrow>
          (case spotify_try env sp i search_term of
             Inr r \<Rightarrow> Inr r
           | Inl e \<Rightarrow> Inr (None, ''Sorry, I couldn't play '' @
                                 quoted (py_format env search_term) @ '' on Spotify.'')))"

subsection \<open>\<^verbatim>\<open>get_weather\<close>\<close>

text \<open>\<^verbatim>\<open>response.raise_for_status()\<close> followed by \<^verbatim>\<open>response.json()\<close>.\<close>

definition response_json_of :: "http_response \<Rightarrow> py_error + json" where
  "response_json_of response =
     (if http_error response then Inl RequestException
      else (case json_body response of None \<Rightarrow> Inl RequestException | Some data \<Rightarrow> Inr data))"

definition weather_try :: "world \<Rightarrow> string \<Rightarrow> nat \<Rightarrow> json \<Rightarrow> py_error + string" where
  "weather_try env key i city =
     and_then (requests_get env i ''http://api.openweathermap.org/data/2.5/weather''
                 [(''q'', city), (''appid'', JStr key), (''units'', JStr ''metric'')]) (\<lambda>response.
     and_then (response_json_of response) (\<lambda>data.
     and_then (getitem_key data ''weather'') (\<lambda>weather.
     and_then (getitem_0 weather) (\<lambda>weather0.
     and_then (getitem_key weather0 ''description'') (\<lambda>description.
     and_then (getitem_key data ''main'') (\<lambda>main.
     and_then (getitem_key main ''temp'') (\<lambda>temp.
     Inr (''The weather in '' @ py_format env city @ '' is currently '' @
          py_format env description @ '' with a temperature of '' @ py_format env temp @
          [CHR 0xC2, CHR 0xB0] @ ''C.''))))))))"

text \<open>
  Only \<^verbatim>\<open>RequestException\<close> and \<^verbatim>\<open>KeyError\<close> have an \<^verbatim>\<open>except\<close> clause; any other
  exception of the body leaves the function.
\<close>

definition get_weather :: "world \<Rightarrow> nat \<Rightarrow> json \<Rightarrow> py_error + string" where
  "get_weather env i city =
     (case WEATHER_API_KEY env of
        None \<Rightarrow> Inr ''Weather API key is not configured.''
      | Some key \<Rightarrow>
          if key = [] then Inr ''Weather API key is not configured.''
          else
            (case weather_try env key i city of
               Inr message \<Rightarrow> Inr message
             | Inl e \<Rightarrow>
                 if e = RequestException
                 then Inr (''Sorry, I couldn't fetch the weather for '' @ py_format env city @ ''.'')
                 else if e = KeyError
                 then Inr (''Sorry, I couldn't find weather data for '' @ py_format env city @ ''.'')
                 else Inl e))"

section \<open>The conversations table\<close>

text \<open>
  \<^verbatim>\<open>init_db\<close> declares \<^verbatim>\<open>user_message\<close> and \<^verbatim>\<open>bot_response\<close> as \<^verbatim>\<open>TEXT NOT NULL\<close>.
  \<^verbatim>\<open>sqlite3\<close> binds \<^verbatim>\<open>None\<close>, \<^verbatim>\<open>int\<close> (64 bits; a \<^verbatim>\<open>bool\<close> is an \<^verbatim>\<open>int\<close>), \<^verbatim>\<open>float\<close> and
  \<^verbatim>\<open>str\<close> parameters and refuses a list or a \<^verbatim>\<open>dict\<close>; \<^verbatim>\<open>None\<close> and the float NaN are
  stored as \<^verbatim>\<open>NULL\<close>. The columns have \<^verbatim>\<open>TEXT\<close> affinity, so a number is stored as its
  text.
\<close>

fun sqlite_bind :: "json \<Rightarrow> py_error option" where
  "sqlite_bind (JArr xs) = Some InterfaceError"
| "sqlite_bind (JObj kvs) = Some InterfaceError"
| "sqlite_bind (JInt i) = (if - (2 ^ 63) \<le> i \<and> i < 2 ^ 63 then None else Some OverflowError)"
| "sqlite_bind _ = None"

definition sql_null :: "json \<Rightarrow> bool" where
  "sql_null v = (v = JNull \<or> v = JFloat NaN)"

text \<open>What a \<^verbatim>\<open>TEXT\<close> column keeps of a bound value that is not \<^verbatim>\<open>NULL\<close>.\<close>

fun sql_text :: "world \<Rightarrow> json \<Rightarrow> string" where
  "sql_text env (JStr s) = s"
| "sql_text env (JInt i) = str_int i"
| "sql_text env (JBool b) = (if b then ''1'' else ''0'')"
| "sql_text env (JFloat f) = sqlite_real_text env f"
| "sql_text env _ = []"

text \<open>
  \<^verbatim>\<open>cursor.execute("INSERT INTO conversations (user_id, user_message, bot_response)
  VALUES (?, ?, ?)", ...)\<close> followed by \<^verbatim>\<open>conn.commit()\<close>.
\<close>

definition insert_conversation :: "world \<Rightarrow> db \<Rightarrow> int \<Rightarrow> json \<Rightarrow> json \<Rightarrow> py_error + db" where
  "insert_conversation env conn uid user_query bot_response_text =
     (case sqlite_bind user_query of Some e \<Rightarrow> Inl e | None \<Rightarrow>
     (case sqlite_bind bot_response_text of Some e \<Rightarrow> Inl e | None \<Rightarrow>
      if sql_null user_query \<or> sql_null bot_response_text then Inl IntegrityError
      else Inr (conn @ [\<lparr>user_id = uid, user_message = sql_text env user_query,
                         bot_response = sql_text env bot_response_text\<rparr>])))"

section \<open>The handler \<^verbatim>\<open>chat_api\<close>\<close>

record request =
  logged_in :: bool       \<comment> \<open>\<^verbatim>\<open>session.get('logged_in')\<close>\<close>
  session_user_id :: int  \<comment> \<open>\<^verbatim>\<open>session.get('user_id')\<close>, set by \<^verbatim>\<open>login\<close>\<close>
  message :: json         \<comment> \<open>\<^verbatim>\<open>request.json.get('message')\<close>, \<open>JNull\<close> when absent\<close>

record loop_state =
  final_instructions :: "json list"
  confirmation_speech :: "string list"

text \<open>
  One pass of \<^verbatim>\<open>for instr in response_json.get("instruction", [])\<close> (lines 299 to 322),
  on the command at position \<open>i\<close> of the list.
\<close>

definition process_instruction :: "world \<Rightarrow> nat \<Rightarrow> loop_state \<Rightarrow> json \<Rightarrow> py_error + loop_state" where
  "process_instruction env i st instr =
     and_then (dict_keys instr) (\<lambda>keys.
     and_then (case keys of [] \<Rightarrow> Inl IndexError | k # ks \<Rightarrow> Inr k) (\<lambda>command.
     and_then (getitem_key instr command) (\<lambda>value.
     if command = ''get_time'' then
       (let now = datetime_now env i;
            current_time = strftime now ''%I:%M %p''
        in Inr (st\<lparr>confirmation_speech := confirmation_speech st @
                     [''The current time is '' @ current_time @ ''.'']\<rparr>))
     else if command = ''get_date'' then
       (let now = datetime_now env i
        in if value = JStr ''full_date'' then
             Inr (st\<lparr>confirmation_speech := confirmation_speech st @
                     [''Today is '' @ strftime now ''%A, %B %d, %Y'' @ ''.'']\<rparr>)
           else if value = JStr ''year'' then
             Inr (st\<lparr>confirmation_speech := confirmation_speech st @
                     [''The current year is '' @ str_nat (year now) @ ''.'']\<rparr>)
           else if value = JStr ''last_year'' then
             Inr (st\<lparr>confirmation_speech := confirmation_speech st @
                     [''Last year was '' @ str_int (int (year now) - 1) @ ''.'']\<rparr>)
           else
             Inr (st\<lparr>confirmation_speech := confirmation_speech st @
                     [''The date today is '' @ strftime now ''%Y-%m-%d'' @ ''.'']\<rparr>))
     else if command = ''get_weather'' then
       and_then (get_weather env i value) (\<lambda>speech.
       Inr (st\<lparr>confirmation_speech := confirmation_speech st @ [speech]\<rparr>))
     else if command = ''play_youtube_direct'' then
       and_then (get_youtube_video_url env i value) (\<lambda>(url, speech).
       Inr (st\<lparr>final_instructions :=
                   (case url of None \<Rightarrow> final_instructions st
                    | Some u \<Rightarrow> if u = [] then final_instructions st
                               else final_instructions st @ [JObj [(''open_url'', JStr u)]]),
               confirmation_speech := confirmation_speech st @ [speech]\<rparr>))
     else if command = ''play_spotify_direct'' then
       and_then (get_spotify_track_url env i value) (\<lambda>(url, speech).
       Inr (st\<lparr>final_instructions :=
                   (case url of None \<Rightarrow> final_instructions st
                    | Some u \<Rightarrow> if u = [] then final_instructions st
                               else final_instructions st @ [JObj [(''open_url'', JStr u)]]),
               confirmation_speech := confirmation_speech st @ [speech]\<rparr>))
     else
       Inr (st\<lparr>final_instructions := final_instructions st @ [instr]\<rparr>))))"

text \<open>The loop: an exception in one pass ends it.\<close>

fun process_instructions :: "world \<Rightarrow> nat \<Rightarrow> loop_state \<Rightarrow> json list \<Rightarrow> py_error + loop_state" where
  "process_instructions env i st [] = Inr st"
| "process_instructions env i st (instr # instrs) =
     and_then (process_instruction env i st instr) (\<lambda>st'.
     process_instructions env (Suc i) st' instrs)"

text \<open>\<^verbatim>\<open>x[key] = v\<close> as a statement: only a \<^verbatim>\<open>dict\<close> takes a string key.\<close>

fun setitem :: "json \<Rightarrow> string \<Rightarrow> json \<Rightarrow> py_error + json" where
  "setitem (JObj kvs) key v = Inr (JObj (dict_setitem kvs key v))"
| "setitem _ key v = Inl TypeError"

text \<open>
  Lines 296 to 333, the branch \<^verbatim>\<open>action == "instruction"\<close> up to the text for the
  history: the response and \<^verbatim>\<open>bot_response_text\<close>.
\<close>

definition instruction_response :: "world \<Rightarrow> json \<Rightarrow> py_error + json \<times> json" where
  "instruction_response env response_json =
     and_then (dict_get response_json ''instruction'' (JArr [])) (\<lambda>listed.
     and_then (py_iter listed) (\<lambda>instrs.
     and_then (process_instructions env 0
                 \<lparr>final_instructions = [], confirmation_speech = []\<rparr> instrs) (\<lambda>st.
     and_then (if confirmation_speech st \<noteq> []
               then Inr (JObj [(''action'', JStr ''instruction_and_conversation''),
                               (''speech'', JStr (join '' '' (confirmation_speech st))),
                               (''instruction'', JArr (final_instructions st))])
               else setitem response_json ''instruction'' (JArr (final_instructions st)))
       (\<lambda>final_response.
     and_then (dict_get final_response ''speech'' (JStr ''Executing instruction.''))
       (\<lambda>bot_response_text.
     Inr (final_response, bot_response_text))))))"

text \<open>
  The model's answer (lines 281 to 291): the history of the user is read, the model is
  asked, code fences are removed from its text and the text is decoded. The prompt is
  built from the rows of the user and the query, so the model is a function of these;
  reading the table and building the prompt are taken not to fail.
\<close>

definition model_response :: "world \<Rightarrow> (conversation list \<Rightarrow> json \<Rightarrow> string option) \<Rightarrow> request \<Rightarrow> db \<Rightarrow> py_error + json" where
  "model_response env generate_content req conn =
     (let history_rows = filter (\<lambda>row. user_id row = session_user_id req) conn in
      case generate_content history_rows (message req) of
        None \<Rightarrow> Inl ApiError
      | Some text \<Rightarrow>
          (let response_text = replace ''```'' [] (replace ''```json'' [] (strip text)) in
           json_loads env response_text))"

text \<open>
  \<^verbatim>\<open>jsonify(body)\<close> serialises the response with \<^verbatim>\<open>json.dumps\<close>, which recurses once per
  level of nesting and raises \<^verbatim>\<open>RecursionError\<close> at the interpreter's limit. A process
  that serves requests at all can serialise the responses that the system prompt
  describes (the object, its instruction list, a command object and the object under
  \<^verbatim>\<open>send_whatsapp\<close>: four levels); how much deeper it can go is the world's
  \<open>jsonify_headroom\<close>.
\<close>

definition jsonify :: "world \<Rightarrow> json \<Rightarrow> py_error + json" where
  "jsonify env body =
     (if depth body \<le> 4 + jsonify_headroom env then Inr body else Inl RecursionError)"

text \<open>
  The end of both branches (lines 334 to 337 and 340 to 343): the \<^verbatim>\<open>INSERT\<close>, the commit
  and then \<^verbatim>\<open>return jsonify(body)\<close>, still inside the \<^verbatim>\<open>try\<close>. The result is what the
  \<^verbatim>\<open>try\<close> block yields and the table as it leaves it: an exception of \<^verbatim>\<open>jsonify\<close> comes
  after the row is committed.
\<close>

definition store_and_return :: "world \<Rightarrow> db \<Rightarrow> request \<Rightarrow> json \<Rightarrow> json \<Rightarrow> (py_error + json) \<times> db" where
  "store_and_return env conn req bot_response_text body =
     (case insert_conversation env conn (session_user_id req) (message req) bot_response_text of
        Inl e \<Rightarrow> (Inl e, conn)
      | Inr conn' \<Rightarrow> (jsonify env body, conn'))"

text \<open>
  Lines 293 to 343, under the comment \<^verbatim>\<open>SERVER-SIDE ACTION PROCESSING\<close>: what the handler
  does with the decoded answer.
\<close>

definition action_processing :: "world \<Rightarrow> request \<Rightarrow> db \<Rightarrow> json \<Rightarrow> (py_error + json) \<times> db" where
  "action_processing env req conn response_json =
     (case dict_get response_json ''action'' JNull of
        Inl e \<Rightarrow> (Inl e, conn)
      | Inr action \<Rightarrow>
          if action = JStr ''instruction'' then
            (case instruction_response env response_json of
               Inl e \<Rightarrow> (Inl e, conn)
             | Inr (final_response, bot_response_text) \<Rightarrow>
                 store_and_return env conn req bot_response_text final_response)
          else
            (case dict_get response_json ''speech'' JNull of
               Inl e \<Rightarrow> (Inl e, conn)
             | Inr bot_response_text \<Rightarrow>
                 store_and_return env conn req bot_response_text response_json))"


text \<open>The \<^verbatim>\<open>try\<close> block of \<^verbatim>\<open>chat_api\<close> (lines 280 to 343).\<close>

definition chat_try :: "world \<Rightarrow> (conversation list \<Rightarrow> json \<Rightarrow> string option) \<Rightarrow> request \<Rightarrow> db \<Rightarrow> (py_error + json) \<times> db" where
  "chat_try env generate_content req conn =
     (case model_response env generate_content req conn of
        Inl e \<Rightarrow> (Inl e, conn)
      | Inr response_json \<Rightarrow> action_processing env req conn response_json)"

text \<open>
  The two fixed replies of the \<^verbatim>\<open>except\<close> clauses, and the reply without a model. They
  are flat objects, which \<^verbatim>\<open>jsonify\<close> serialises.
\<close>

definition conversation_reply :: "string \<Rightarrow> json" where
  "conversation_reply speech = JObj [(''action'', JStr ''conversation''), (''speech'', JStr speech)]"

definition trouble_reply :: json where
  "trouble_reply =
     conversation_reply ''I'm having a little trouble understanding. Could you rephrase that?''"

definition unexpected_reply :: json where
  "unexpected_reply =
     conversation_reply ''I'm sorry, an unexpected error occurred. Please try again.''"

text \<open>
  \<^verbatim>\<open>chat_api\<close>: the JSON body and the HTTP status of the response, and the table after
  the request.
\<close>

definition chat_api :: "world \<Rightarrow> request \<Rightarrow> db \<Rightarrow> (json \<times> nat) \<times> db" where
  "chat_api env req conn =
     (if \<not> logged_in req then ((JObj [(''error'', JStr ''Unauthorized'')], 401), conn)
      else
        (case model env of
           None \<Rightarrow> ((conversation_reply ''AI model is not configured.'', 500), conn)
         | Some generate_content \<Rightarrow>
             if \<not> truthy (message req)
             then ((JObj [(''error'', JStr ''No message provided'')], 400), conn)
             else
               (case chat_try env generate_content req conn of
                  (Inr body, conn') \<Rightarrow> ((body, 200), conn')
                | (Inl e, conn') \<Rightarrow>
                    if e = JSONDecodeError then ((trouble_reply, 500), conn')
                    else ((unexpected_reply, 500), conn'))))"

text \<open>
  What the command at position \<open>i\<close> yields on its own: the pass of the loop on empty
  lists.
\<close>

definition dispatch_one :: "world \<Rightarrow> nat \<Rightarrow> json \<Rightarrow> py_error + loop_state" where
  "dispatch_one env i instr =
     process_instruction env i \<lparr>final_instructions = [], confirmation_speech = []\<rparr> instr"

text \<open>The lists of the loop after the output \<open>out\<close> of one command is appended.\<close>

definition extend :: "loop_state \<Rightarrow> loop_state \<Rightarrow> loop_state" where
  "extend st out = \<lparr>final_instructions = final_instructions st @ final_instructions out,
                     confirmation_speech = confirmation_speech st @ confirmation_speech out\<rparr>"

text \<open>
  The request passes the three guards of \<^verbatim>\<open>chat_api\<close> and the model's text decodes to
  \<open>response_json\<close>.
\<close>

definition answers :: "world \<Rightarrow> request \<Rightarrow> db \<Rightarrow> json \<Rightarrow> bool" where
  "answers env req conn response_json =
     (logged_in req \<and> truthy (message req) \<and>
      (case model env of
         None \<Rightarrow> False
       | Some generate_content \<Rightarrow>
           model_response env generate_content req conn = Inr response_json))"

text \<open>A value that the table takes in a \<^verbatim>\<open>NOT NULL\<close> column.\<close>

definition storable :: "json \<Rightarrow> bool" where
  "storable v = (sqlite_bind v = None \<and> \<not> sql_null v)"

text \<open>The command names that the loop handles on the server.\<close>

definition server_side :: "string list" where
  "server_side = [''get_time'', ''get_date'', ''get_weather'', ''play_youtube_direct'',
                  ''play_spotify_direct'']"

section \<open>Concrete worlds and requests\<close>

text \<open>
  The examples below run the handler in a world where the model answers one fixed text,
  the decoder knows the value of that text and takes every other text for malformed, the
  clock reads Tuesday 3 November 2026, 14:05, no provider is configured, and
  \<^verbatim>\<open>jsonify\<close> serialises 989 levels of nesting and raises \<^verbatim>\<open>RecursionError\<close> from 990.
  Single fields are replaced where an example needs a provider.
\<close>

definition afternoon :: datetime where
  "afternoon = \<lparr>year = 2026, month = November, day = 3, hour = 14, minute = 5,
                 weekday = Tuesday\<rparr>"

definition decodes_to :: "string \<Rightarrow> json \<Rightarrow> string \<Rightarrow> json option" where
  "decodes_to known v text = (if text = known then Some v else None)"

definition example_world :: "string \<Rightarrow> (string \<Rightarrow> json option) \<Rightarrow> world" where
  "example_world text decoder =
     \<lparr>model = Some (\<lambda>history_rows user_query. Some text),
      json_loads = (\<lambda>response_text. case decoder response_text of
                                        None \<Rightarrow> Inl JSONDecodeError
                                      | Some v \<Rightarrow> Inr v),
      jsonify_headroom = 985,
      sqlite_real_text = (\<lambda>f. ''<real>''),
      py_repr = (\<lambda>v. ''<value>''),
      datetime_now = (\<lambda>i. afternoon),
      youtube = None,
      spotify = None,
      WEATHER_API_KEY = None,
      requests_get = (\<lambda>i url params. Inl RequestException)\<rparr>"

definition example_request :: request where
  "example_request = \<lparr>logged_in = True, session_user_id = 1, message = JStr ''hello''\<rparr>"

text \<open>A YouTube client whose search finds nothing.\<close>

definition empty_youtube :: youtube_client where
  "empty_youtube =
     \<lparr>search_list = (\<lambda>i q. Inr (JObj [(''items'', JArr [])])),
      videos_list = (\<lambda>i ids. Inr (JObj [(''items'', JArr [])]))\<rparr>"

text \<open>
  A weather service that answers with status 200 and the body
  \<^verbatim>\<open>{"weather": [], "main": {"temp": 20}}\<close>.
\<close>

definition empty_weather_list :: http_response where
  "empty_weather_list =
     \<lparr>http_error = False,
      json_body = Some (JObj [(''weather'', JArr []),
                              (''main'', JObj [(''temp'', JInt 20)])])\<rparr>"

text \<open>
  Lists inside lists: \<open>nested n\<close> is \<open>n + 1\<close> levels deep and \<open>nested_text n\<close> is its
  JSON text.
\<close>

fun nested :: "nat \<Rightarrow> json" where
  "nested 0 = JArr []"
| "nested (Suc n) = JArr [nested n]"

definition nested_text :: "nat \<Rightarrow> string" where
  "nested_text n = replicate (Suc n) (CHR ''['') @ replicate (Suc n) (CHR '']'')"

section \<open>Facts about the loop body\<close>

lemma and_then_Inr_iff:
  "and_then m f = Inr y \<longleftrightarrow> (\<exists>x. m = Inr x \<and> f x = Inr y)"
  by (cases m) simp_all

lemma and_then_Inl_iff:
  "and_then m f = Inl e \<longleftrightarrow> (m = Inl e \<or> (\<exists>x. m = Inr x \<and> f x = Inl e))"
  by (cases m) simp_all

text \<open>The pass of the loop on an object, by its first key.\<close>

lemma process_instruction_object:
  "process_instruction env i st (JObj ((k, v) # rest)) =
     (if k = ''get_time'' then
        Inr (st\<lparr>confirmation_speech := confirmation_speech st @
               [''The current time is '' @ strftime (datetime_now env i) ''%I:%M %p'' @ ''.'']\<rparr>)
      else if k = ''get_date'' then
        Inr (st\<lparr>confirmation_speech := confirmation_speech st @
               [if v = JStr ''full_date''
                then ''Today is '' @ strftime (datetime_now env i) ''%A, %B %d, %Y'' @ ''.''
                else if v = JStr ''year''
                then ''The current year is '' @ str_nat (year (datetime_now env i)) @ ''.''
                else if v = JStr ''last_year''
                then ''Last year was '' @ str_int (int (year (datetime_now env i)) - 1) @ ''.''
                else ''The date today is '' @ strftime (datetime_now env i) ''%Y-%m-%d'' @ ''.'']\<rparr>)
      else if k = ''get_weather'' then
        and_then (get_weather env i v) (\<lambda>speech.
        Inr (st\<lparr>confirmation_speech := confirmation_speech st @ [speech]\<rparr>))
      else if k = ''play_youtube_direct'' then
        and_then (get_youtube_video_url env i v) (\<lambda>(url, speech).
        Inr (st\<lparr>final_instructions :=
                   (case url of None \<Rightarrow> final_instructions st
                    | Some u \<Rightarrow> if u = [] then final_instructions st
                               else final_instructions st @ [JObj [(''open_url'', JStr u)]]),
               confirmation_speech := confirmation_speech st @ [speech]\<rparr>))
      else if k = ''play_spotify_direct'' then
        and_then (get_spotify_track_url env i v) (\<lambda>(url, speech).
        Inr (st\<lparr>final_instructions :=
                   (case url of None \<Rightarrow> final_instructions st
                    | Some u \<Rightarrow> if u = [] then final_instructions st
                               else final_instructions st @ [JObj [(''open_url'', JStr u)]]),
               confirmation_speech := confirmation_speech st @ [speech]\<rparr>))
      else Inr (st\<lparr>final_instructions := final_instructions st @ [JObj ((k, v) # rest)]\<rparr>))"
  by (simp add: process_instruction_def Let_def)

lemma process_instruction_empty_object:
  "process_instruction env i st (JObj []) = Inl IndexError"
  by (simp add: process_instruction_def)

lemma process_instruction_not_object:
  "\<forall>kvs. instr \<noteq> JObj kvs \<Longrightarrow> process_instruction env i st instr = Inl AttributeError"
  by (cases instr) (simp_all add: process_instruction_def)

lemma process_instruction_pass_through:
  "k \<notin> set server_side \<Longrightarrow>
     process_instruction env i st (JObj ((k, v) # rest)) =
       Inr (st\<lparr>final_instructions := final_instructions st @ [JObj ((k, v) # rest)]\<rparr>)"
  by (simp add: process_instruction_object server_side_def)

text \<open>The two adapters with \<^verbatim>\<open>except Exception\<close> always return, and a URL they return is not empty.\<close>

lemma first_embeddable_url_nonempty:
  "first_embeddable env q items = Inr (Some u, speech) \<Longrightarrow> u \<noteq> []"
  by (induction items) (auto simp: and_then_Inr_iff split: if_splits)

lemma youtube_url_nonempty:
  "get_youtube_video_url env i q = Inr (Some u, speech) \<Longrightarrow> u \<noteq> []"
  by (auto simp: get_youtube_video_url_def youtube_try_def and_then_Inr_iff
           split: option.splits sum.splits if_splits dest: first_embeddable_url_nonempty)

lemma youtube_never_raises:
  "\<exists>url speech. get_youtube_video_url env i q = Inr (url, speech)"
  by (auto simp: get_youtube_video_url_def split: option.splits sum.splits)

lemma spotify_url_nonempty:
  "get_spotify_track_url env i q = Inr (Some u, speech) \<Longrightarrow> u \<noteq> []"
  by (auto simp: get_spotify_track_url_def spotify_try_def and_then_Inr_iff Let_def
           split: option.splits sum.splits if_splits)

lemma spotify_never_raises:
  "\<exists>url speech. get_spotify_track_url env i q = Inr (url, speech)"
  by (auto simp: get_spotify_track_url_def split: option.splits sum.splits)

text \<open>
  A pass of the loop appends the command's own output to the lists it finds, whatever
  they hold.
\<close>

lemma process_instruction_frame:
  "process_instruction env i st instr =
     and_then (dispatch_one env i instr) (\<lambda>out. Inr (extend st out))"
proof (cases instr)
  case (JObj kvs)
  show ?thesis
  proof (cases kvs)
    case Nil
    with JObj show ?thesis by (simp add: dispatch_one_def process_instruction_empty_object)
  next
    case (Cons kv rest)
    obtain k v where kv: "kv = (k, v)" by (cases kv)
    obtain yu ys where y: "get_youtube_video_url env i v = Inr (yu, ys)"
      using youtube_never_raises by blast
    obtain su ss where s: "get_spotify_track_url env i v = Inr (su, ss)"
      using spotify_never_raises by blast
    have "process_instruction env i st (JObj ((k, v) # rest)) =
            and_then (dispatch_one env i (JObj ((k, v) # rest))) (\<lambda>out. Inr (extend st out))"
      unfolding dispatch_one_def process_instruction_object
      by (cases "get_weather env i v") (simp_all add: y s extend_def split: option.splits)
    then show ?thesis by (simp add: JObj Cons kv)
  qed
qed (simp_all add: dispatch_one_def process_instruction_not_object)

lemma dispatch_one_at_most_one:
  assumes "dispatch_one env i instr = Inr out"
  shows "length (final_instructions out) \<le> 1 \<and> length (confirmation_speech out) \<le> 1"
proof (cases instr)
  case (JObj kvs)
  show ?thesis
  proof (cases kvs)
    case Nil
    with JObj assms show ?thesis
      by (simp add: dispatch_one_def process_instruction_empty_object)
  next
    case (Cons kv rest)
    obtain k v where kv: "kv = (k, v)" by (cases kv)
    obtain yu ys where y: "get_youtube_video_url env i v = Inr (yu, ys)"
      using youtube_never_raises by blast
    obtain su ss where s: "get_spotify_track_url env i v = Inr (su, ss)"
      using spotify_never_raises by blast
    from assms have b: "dispatch_one env i (JObj ((k, v) # rest)) = Inr out"
      by (simp add: JObj Cons kv)
    consider "k = ''get_time''" | "k = ''get_date''" | "k = ''get_weather''"
      | "k = ''play_youtube_direct''" | "k = ''play_spotify_direct''"
      | "k \<notin> set server_side"
      by (auto simp: server_side_def)
    then show ?thesis
    proof cases
      case 1
      with b show ?thesis
        by (auto simp: dispatch_one_def process_instruction_object)
    next
      case 2
      with b show ?thesis
        by (auto simp: dispatch_one_def process_instruction_object)
    next
      case 3
      with b show ?thesis
        by (cases "get_weather env i v") (auto simp: dispatch_one_def process_instruction_object)
    next
      case 4
      with b show ?thesis
        by (auto simp: dispatch_one_def process_instruction_object y split: option.splits if_splits)
    next
      case 5
      with b show ?thesis
        by (auto simp: dispatch_one_def process_instruction_object s split: option.splits if_splits)
    next
      case 6
      with b show ?thesis
        by (auto simp: dispatch_one_def process_instruction_pass_through)
    qed
  qed
next
  case JNull with assms show ?thesis by (simp add: dispatch_one_def process_instruction_not_object)
next
  case JBool with assms show ?thesis by (simp add: dispatch_one_def process_instruction_not_object)
next
  case JInt with assms show ?thesis by (simp add: dispatch_one_def process_instruction_not_object)
next
  case JFloat with assms show ?thesis by (simp add: dispatch_one_def process_instruction_not_object)
next
  case JStr with assms show ?thesis by (simp add: dispatch_one_def process_instruction_not_object)
next
  case JArr with assms show ?thesis by (simp add: dispatch_one_def process_instruction_not_object)
qed

lemma loop_state_eqI:
  "final_instructions a = final_instructions b \<Longrightarrow>
   confirmation_speech a = confirmation_speech b \<Longrightarrow> a = (b :: loop_state)"
  by simp

lemma loop_outputs:
  "process_instructions env i st instrs = Inr st' \<Longrightarrow>
     \<exists>outs. length outs = length instrs \<and>
       (\<forall>j < length instrs. dispatch_one env (i + j) (instrs ! j) = Inr (outs ! j)) \<and>
       final_instructions st' = final_instructions st @ concat (map final_instructions outs) \<and>
       confirmation_speech st' = confirmation_speech st @ concat (map confirmation_speech outs)"
proof (induction instrs arbitrary: i st)
  case Nil
  then show ?case by simp
next
  case (Cons instr instrs)
  from Cons.prems obtain st1 where
    one: "process_instruction env i st instr = Inr st1" and
    more: "process_instructions env (Suc i) st1 instrs = Inr st'"
    by (auto simp: and_then_Inr_iff)
  from one obtain out where
    out: "dispatch_one env i instr = Inr out" and st1: "st1 = extend st out"
    by (auto simp: process_instruction_frame [of env i st] and_then_Inr_iff)
  from Cons.IH [OF more] obtain outs where
    len: "length outs = length instrs" and
    each: "\<forall>j < length instrs. dispatch_one env (Suc i + j) (instrs ! j) = Inr (outs ! j)" and
    fi: "final_instructions st' = final_instructions st1 @ concat (map final_instructions outs)" and
    cs: "confirmation_speech st' = confirmation_speech st1 @ concat (map confirmation_speech outs)"
    by blast
  have "\<forall>j < length (instr # instrs).
          dispatch_one env (i + j) ((instr # instrs) ! j) = Inr ((out # outs) ! j)"
  proof (intro allI impI)
    fix j assume "j < length (instr # instrs)"
    then show "dispatch_one env (i + j) ((instr # instrs) ! j) = Inr ((out # outs) ! j)"
      using out each by (cases j) simp_all
  qed
  with len fi cs st1 show ?case
    by (intro exI [of _ "out # outs"]) (simp add: extend_def)
qed

lemma outputs_loop:
  "length outs = length instrs \<Longrightarrow>
   \<forall>j < length instrs. dispatch_one env (i + j) (instrs ! j) = Inr (outs ! j) \<Longrightarrow>
     process_instructions env i st instrs =
       Inr \<lparr>final_instructions = final_instructions st @ concat (map final_instructions outs),
            confirmation_speech = confirmation_speech st @ concat (map confirmation_speech outs)\<rparr>"
proof (induction instrs arbitrary: i st outs)
  case Nil
  then show ?case by simp
next
  case (Cons instr instrs)
  from Cons.prems(1) obtain out outs' where outs: "outs = out # outs'"
    by (cases outs) simp_all
  with Cons.prems(1) have len: "length outs' = length instrs" by simp
  from Cons.prems(2) [rule_format, of 0] outs
  have out: "dispatch_one env i instr = Inr out" by simp
  have each: "\<forall>j < length instrs. dispatch_one env (Suc i + j) (instrs ! j) = Inr (outs' ! j)"
  proof (intro allI impI)
    fix j assume "j < length instrs"
    with Cons.prems(2) [rule_format, of "Suc j"] outs
    show "dispatch_one env (Suc i + j) (instrs ! j) = Inr (outs' ! j)" by simp
  qed
  show ?case
    by (simp add: process_instruction_frame [of env i st] out outs extend_def
                  Cons.IH [OF len each])
qed

section \<open>Claims about the dispatch loop\<close>

text \<open>
  Claim C7. The loop preserves order. It succeeds exactly when every command on its own
  yields an output; each output holds at most one client instruction and at most one
  confirmation sentence; and the lists the loop ends with are the lists it started with
  followed by the outputs of the commands, in the order of the command list: the
  confirmations of all commands in input order, and the client instructions (passed
  through or derived) of those commands that produced one, in input order.
\<close>

theorem process_instructions_preserves_order:
  "process_instructions env i st instrs = Inr st' \<longleftrightarrow>
     (\<exists>outs. length outs = length instrs \<and>
        (\<forall>j < length instrs.
           dispatch_one env (i + j) (instrs ! j) = Inr (outs ! j) \<and>
           length (final_instructions (outs ! j)) \<le> 1 \<and>
           length (confirmation_speech (outs ! j)) \<le> 1) \<and>
        final_instructions st' = final_instructions st @ concat (map final_instructions outs) \<and>
        confirmation_speech st' =
          confirmation_speech st @ concat (map confirmation_speech outs))"
proof
  assume "process_instructions env i st instrs = Inr st'"
  from loop_outputs [OF this] obtain outs where
    len: "length outs = length instrs" and
    each: "\<forall>j < length instrs. dispatch_one env (i + j) (instrs ! j) = Inr (outs ! j)" and
    lists: "final_instructions st' = final_instructions st @ concat (map final_instructions outs)"
      "confirmation_speech st' = confirmation_speech st @ concat (map confirmation_speech outs)"
    by blast
  from each have
    "\<forall>j < length instrs.
       dispatch_one env (i + j) (instrs ! j) = Inr (outs ! j) \<and>
       length (final_instructions (outs ! j)) \<le> 1 \<and>
       length (confirmation_speech (outs ! j)) \<le> 1"
    using dispatch_one_at_most_one by blast
  with len lists show
    "\<exists>outs. length outs = length instrs \<and>
        (\<forall>j < length instrs.
           dispatch_one env (i + j) (instrs ! j) = Inr (outs ! j) \<and>
           length (final_instructions (outs ! j)) \<le> 1 \<and>
           length (confirmation_speech (outs ! j)) \<le> 1) \<and>
        final_instructions st' = final_instructions st @ concat (map final_instructions outs) \<and>
        confirmation_speech st' =
          confirmation_speech st @ concat (map confirmation_speech outs)"
    by blast
next
  assume "\<exists>outs. length outs = length instrs \<and>
        (\<forall>j < length instrs.
           dispatch_one env (i + j) (instrs ! j) = Inr (outs ! j) \<and>
           length (final_instructions (outs ! j)) \<le> 1 \<and>
           length (confirmation_speech (outs ! j)) \<le> 1) \<and>
        final_instructions st' = final_instructions st @ concat (map final_instructions outs) \<and>
        confirmation_speech st' =
          confirmation_speech st @ concat (map confirmation_speech outs)"
  then obtain outs where
    len: "length outs = length instrs" and
    each: "\<forall>j < length instrs. dispatch_one env (i + j) (instrs ! j) = Inr (outs ! j)" and
    lists: "final_instructions st' = final_instructions st @ concat (map final_instructions outs)"
      "confirmation_speech st' = confirmation_speech st @ concat (map confirmation_speech outs)"
    by blast
  from outputs_loop [OF len each, of st] lists
  show "process_instructions env i st instrs = Inr st'"
    by (simp add: loop_state_eqI)
qed

text \<open>
  In the example world the list \<^verbatim>\<open>[{"get_time": "current"}, {"open_website":
  "wikipedia"}, {"get_date": "year"}, {"search_google": "isabelle"}]\<close> yields the two
  confirmations and the two passed commands, each pair in the order of the list.
\<close>

theorem process_instructions_preserves_order_witness:
  "process_instructions (example_world [] (\<lambda>text. None)) 0
      \<lparr>final_instructions = [], confirmation_speech = []\<rparr>
      [JObj [(''get_time'', JStr ''current'')], JObj [(''open_website'', JStr ''wikipedia'')],
       JObj [(''get_date'', JStr ''year'')], JObj [(''search_google'', JStr ''isabelle'')]]
    = Inr \<lparr>final_instructions = [JObj [(''open_website'', JStr ''wikipedia'')],
                                   JObj [(''search_google'', JStr ''isabelle'')]],
           confirmation_speech = [''The current time is 02:05 PM.'',
                                  ''The current year is 2026.'']\<rparr>
   \<and> (\<exists>outs :: loop_state list. length outs = 4 \<and>
         concat (map confirmation_speech outs) =
           [''The current time is 02:05 PM.'', ''The current year is 2026.''] \<and>
         concat (map final_instructions outs) =
           [JObj [(''open_website'', JStr ''wikipedia'')],
            JObj [(''search_google'', JStr ''isabelle'')]])"
proof -
  let ?env = "example_world [] (\<lambda>text. None)"
  let ?st = "\<lparr>final_instructions = [], confirmation_speech = []\<rparr>"
  let ?instrs = "[JObj [(''get_time'', JStr ''current'')],
                  JObj [(''open_website'', JStr ''wikipedia'')],
                  JObj [(''get_date'', JStr ''year'')],
                  JObj [(''search_google'', JStr ''isabelle'')]]"
  let ?st' = "\<lparr>final_instructions = [JObj [(''open_website'', JStr ''wikipedia'')],
                                        JObj [(''search_google'', JStr ''isabelle'')]],
                confirmation_speech = [''The current time is 02:05 PM.'',
                                       ''The current year is 2026.'']\<rparr>"
  have run: "process_instructions ?env 0 ?st ?instrs = Inr ?st'"
    by (simp add: process_instruction_object example_world_def afternoon_def directive_def
                  two_digits_def digit_def hour12_def str_nat.simps)
  have "\<exists>outs :: loop_state list. length outs = 4 \<and>
         concat (map confirmation_speech outs) =
           [''The current time is 02:05 PM.'', ''The current year is 2026.''] \<and>
         concat (map final_instructions outs) =
           [JObj [(''open_website'', JStr ''wikipedia'')],
            JObj [(''search_google'', JStr ''isabelle'')]]"
    using process_instructions_preserves_order [THEN iffD1, OF run]
    apply (elim exE conjE)
    subgoal for outs
      by (rule_tac x = outs in exI) auto
    done
  with run show ?thesis by blast
qed

section \<open>Facts about the clock's text\<close>

lemma two_digits_nth:
  "n < 100 \<Longrightarrow> two_digits n = [''0123456789'' ! (n div 10), ''0123456789'' ! (n mod 10)]"
  by (simp add: two_digits_def digit_def)

lemma hour12_table:
  "h < 24 \<Longrightarrow> hour12 h = (if h = 0 \<or> h = 12 then 12 else if h < 12 then h else h - 12)"
  by (auto simp: hour12_def mod_if)

lemma hour12_small: "hour12 h < 100"
  unfolding hour12_def by presburger

lemma weekday_name_cases:
  "weekday_name w =
     (case w of Monday \<Rightarrow> ''Monday'' | Tuesday \<Rightarrow> ''Tuesday'' | Wednesday \<Rightarrow> ''Wednesday''
      | Thursday \<Rightarrow> ''Thursday'' | Friday \<Rightarrow> ''Friday'' | Saturday \<Rightarrow> ''Saturday''
      | Sunday \<Rightarrow> ''Sunday'')"
  by (cases w) simp_all

lemma month_name_cases:
  "month_name m =
     (case m of January \<Rightarrow> ''January'' | February \<Rightarrow> ''February'' | March \<Rightarrow> ''March''
      | April \<Rightarrow> ''April'' | May \<Rightarrow> ''May'' | June \<Rightarrow> ''June'' | July \<Rightarrow> ''July''
      | August \<Rightarrow> ''August'' | September \<Rightarrow> ''September'' | October \<Rightarrow> ''October''
      | November \<Rightarrow> ''November'' | December \<Rightarrow> ''December'')"
  by (cases m) simp_all

lemma month_number_cases:
  "month_number m =
     (case m of January \<Rightarrow> 1 | February \<Rightarrow> 2 | March \<Rightarrow> 3 | April \<Rightarrow> 4 | May \<Rightarrow> 5
      | June \<Rightarrow> 6 | July \<Rightarrow> 7 | August \<Rightarrow> 8 | September \<Rightarrow> 9 | October \<Rightarrow> 10
      | November \<Rightarrow> 11 | December \<Rightarrow> 12)"
  by (cases m) simp_all

lemma month_number_small: "month_number m < 100"
  by (cases m) simp_all

lemma str_nat_four:
  assumes "1000 \<le> y" and "y \<le> 9999"
  shows "str_nat y = [''0123456789'' ! (y div 1000), ''0123456789'' ! (y div 100 mod 10),
                      ''0123456789'' ! (y div 10 mod 10), ''0123456789'' ! (y mod 10)]"
proof -
  have a: "\<not> y < 10" "\<not> y div 10 < 10" "\<not> y div 100 < 10" "y div 1000 < 10"
    using assms by simp_all
  have "str_nat (y div 1000) = [digit (y div 1000)]"
    using a(4) by (simp add: str_nat.simps [of "y div 1000"])
  moreover have "str_nat (y div 100) = str_nat (y div 1000) @ [digit (y div 100)]"
    using a(3) by (simp add: str_nat.simps [of "y div 100"] div_mult2_eq [symmetric])
  moreover have "str_nat (y div 10) = str_nat (y div 100) @ [digit (y div 10)]"
    using a(2) by (simp add: str_nat.simps [of "y div 10"] div_mult2_eq [symmetric])
  moreover have "str_nat y = str_nat (y div 10) @ [digit y]"
    using a(1) by (simp add: str_nat.simps [of y])
  ultimately show ?thesis
    using a(4) by (simp add: digit_def)
qed

text \<open>
  \<open>str_nat n\<close> is the decimal numeral of \<open>n\<close>: digits only, no leading zero, and
  read back it is \<open>n\<close>.
\<close>

lemma below_ten:
  "k < 10 \<Longrightarrow>
     k = 0 \<or> k = 1 \<or> k = 2 \<or> k = 3 \<or> k = 4 \<or> k = 5 \<or> k = 6 \<or> k = 7 \<or> k = 8 \<or> k = (9::nat)"
  by presburger

lemma digit_value: "of_char (digit n) = 48 + n mod 10"
proof -
  have "n mod 10 < 10" by simp
  from below_ten [OF this] show ?thesis
    by (elim disjE) (simp_all add: digit_def)
qed

lemma digit_is_digit: "digit n \<in> set ''0123456789''"
proof -
  have "n mod 10 < length ''0123456789''" by simp
  then show ?thesis unfolding digit_def by (rule nth_mem)
qed

lemma str_nat_not_empty: "str_nat n \<noteq> []"
  by (subst str_nat.simps) simp

lemma str_nat_digits: "set (str_nat n) \<subseteq> set ''0123456789''"
proof (induction n rule: str_nat.induct)
  case (1 n)
  show ?case
  proof (cases "n < 10")
    case True
    then show ?thesis
      using digit_is_digit [of n] by (subst str_nat.simps) simp
  next
    case False
    with 1 show ?thesis
      using digit_is_digit [of n] by (subst str_nat.simps) simp
  qed
qed

lemma str_nat_value:
  "foldl (\<lambda>a c. 10 * a + (of_char c - 48)) 0 (str_nat n) = n"
proof (induction n rule: str_nat.induct)
  case (1 n)
  show ?case
  proof (cases "n < 10")
    case True
    then show ?thesis
      by (subst str_nat.simps) (simp add: digit_value)
  next
    case False
    with 1 show ?thesis
      by (subst str_nat.simps) (simp add: digit_value)
  qed
qed

lemma str_nat_no_leading_zero:
  "hd (str_nat n) = CHR ''0'' \<Longrightarrow> str_nat n = ''0''"
proof (induction n rule: str_nat.induct)
  case (1 n)
  show ?case
  proof (cases "n < 10")
    case True
    with 1(2) have "digit n = CHR ''0''"
      by (simp add: str_nat.simps [of n])
    then have "(of_char (digit n) :: nat) = 48" by simp
    with True have "n = 0" by (simp add: digit_value)
    then show ?thesis by (simp add: str_nat.simps [of 0] digit_def)
  next
    case False
    then have s: "str_nat n = str_nat (n div 10) @ [digit n]"
      by (simp add: str_nat.simps [of n])
    with 1(2) have "hd (str_nat (n div 10)) = CHR ''0''"
      by (simp add: str_nat_not_empty)
    from 1(1) [OF False this] have "str_nat (n div 10) = ''0''" .
    then have "foldl (\<lambda>a c. 10 * a + (of_char c - 48)) 0 (str_nat (n div 10)) = (0::nat)"
      by simp
    then have "n div 10 = 0" by (simp add: str_nat_value)
    with False show ?thesis by simp
  qed
qed

lemma str_nat_decimal:
  "str_nat n \<noteq> [] \<and> set (str_nat n) \<subseteq> set ''0123456789'' \<and>
   (hd (str_nat n) = CHR ''0'' \<longrightarrow> str_nat n = ''0'') \<and>
   foldl (\<lambda>a c. 10 * a + (of_char c - 48)) 0 (str_nat n) = n"
  using str_nat_not_empty str_nat_digits str_nat_value str_nat_no_leading_zero by blast

lemma str_int_nat: "str_int (int n) = str_nat n"
  by (simp add: str_int_def)

lemma strftime_time:
  "strftime t ''%I:%M %p'' =
     two_digits (hour12 (hour t)) @ '':'' @ two_digits (minute t) @
     (if hour t < 12 then '' AM'' else '' PM'')"
  by (simp add: directive_def)

lemma strftime_full_date:
  "strftime t ''%A, %B %d, %Y'' =
     weekday_name (weekday t) @ '', '' @ month_name (month t) @ '' '' @ two_digits (day t) @
     '', '' @ str_nat (year t)"
  by (simp add: directive_def)

lemma strftime_iso_date:
  "strftime t ''%Y-%m-%d'' =
     str_nat (year t) @ ''-'' @ two_digits (month_number (month t)) @ ''-'' @ two_digits (day t)"
  by (simp add: directive_def)

text \<open>The confirmations of \<^verbatim>\<open>get_time\<close> and \<^verbatim>\<open>get_date\<close>, in the functions of the clock.\<close>

lemma get_time_confirmation:
  "process_instruction env i st (JObj ((''get_time'', v) # rest)) =
     Inr (st\<lparr>confirmation_speech := confirmation_speech st @
           [''The current time is '' @ two_digits (hour12 (hour (datetime_now env i))) @ '':'' @
            two_digits (minute (datetime_now env i)) @
            (if hour (datetime_now env i) < 12 then '' AM'' else '' PM'') @ ''.'']\<rparr>)"
  by (simp add: process_instruction_object directive_def)

lemma get_date_confirmation:
  "process_instruction env i st (JObj ((''get_date'', kind) # rest)) =
     Inr (st\<lparr>confirmation_speech := confirmation_speech st @
           [if kind = JStr ''full_date''
            then ''Today is '' @ weekday_name (weekday (datetime_now env i)) @ '', '' @
                 month_name (month (datetime_now env i)) @ '' '' @
                 two_digits (day (datetime_now env i)) @ '', '' @
                 str_nat (year (datetime_now env i)) @ ''.''
            else if kind = JStr ''year''
            then ''The current year is '' @ str_nat (year (datetime_now env i)) @ ''.''
            else if kind = JStr ''last_year''
            then ''Last year was '' @ str_int (int (year (datetime_now env i)) - 1) @ ''.''
            else ''The date today is '' @ str_nat (year (datetime_now env i)) @ ''-'' @
                 two_digits (month_number (month (datetime_now env i))) @ ''-'' @
                 two_digits (day (datetime_now env i)) @ ''.'']\<rparr>)"
  by (simp add: process_instruction_object directive_def)

section \<open>The claim about time and date\<close>

text \<open>
  Claim C8. At every reading of the clock \<^verbatim>\<open>get_time\<close> and \<^verbatim>\<open>get_date\<close> add one
  confirmation, add no client instruction and never raise. For a reading with an hour
  below 24 and a minute below 60, \<^verbatim>\<open>get_time\<close> confirms ``The current time is HH:MM
  AM.'' or ``... PM.'', where HH is the hour of the 12-hour clock (12 for the hours 0
  and 12, the hour itself before noon, the hour less 12 after noon) and MM the minute,
  two digits each, and PM stands from noon on: ``12:00 AM'' at 0:00, ``09:07 AM'' at
  9:07, ``12:30 PM'' at 12:30, ``02:05 PM'' at 14:05, ``11:59 PM'' at 23:59.
  \<^verbatim>\<open>get_date\<close> confirms, for \<^verbatim>\<open>full_date\<close>, ``Today is Weekday, Month DD, YYYY.'' with
  the English names; for \<^verbatim>\<open>year\<close>, ``The current year is Y.''; for \<^verbatim>\<open>last_year\<close>, ``Last
  year was Y-1.''; and for any other value ``The date today is YYYY-MM-DD.''. The
  years Y and Y-1 are decimal numerals (digits only, no leading zero, reading back as
  the number); DD and MM are two digits and YYYY is four digits for the years 1000 to
  9999.
\<close>

theorem get_time_get_date_confirmations:
  "(let now = datetime_now env i;
        h = hour now; m = minute now; d = day now; y = year now;
        two = (\<lambda>n. [''0123456789'' ! (n div 10), ''0123456789'' ! (n mod 10)]);
        four = (\<lambda>n. [''0123456789'' ! (n div 1000), ''0123456789'' ! (n div 100 mod 10),
                      ''0123456789'' ! (n div 10 mod 10), ''0123456789'' ! (n mod 10)]);
        decimal = (\<lambda>s n. s \<noteq> [] \<and> set s \<subseteq> set ''0123456789'' \<and>
                          (hd s = CHR ''0'' \<longrightarrow> s = ''0'') \<and>
                          foldl (\<lambda>a c. 10 * a + (of_char c - 48)) 0 s = n);
        h12 = (if h = 0 \<or> h = 12 then 12 else if h < 12 then h else h - 12);
        weekday_text =
          (case weekday now of Monday \<Rightarrow> ''Monday'' | Tuesday \<Rightarrow> ''Tuesday''
           | Wednesday \<Rightarrow> ''Wednesday'' | Thursday \<Rightarrow> ''Thursday'' | Friday \<Rightarrow> ''Friday''
           | Saturday \<Rightarrow> ''Saturday'' | Sunday \<Rightarrow> ''Sunday'');
        month_text =
          (case month now of January \<Rightarrow> ''January'' | February \<Rightarrow> ''February''
           | March \<Rightarrow> ''March'' | April \<Rightarrow> ''April'' | May \<Rightarrow> ''May'' | June \<Rightarrow> ''June''
           | July \<Rightarrow> ''July'' | August \<Rightarrow> ''August'' | September \<Rightarrow> ''September''
           | October \<Rightarrow> ''October'' | November \<Rightarrow> ''November'' | December \<Rightarrow> ''December'');
        month_no =
          (case month now of January \<Rightarrow> 1 | February \<Rightarrow> 2 | March \<Rightarrow> 3 | April \<Rightarrow> 4
           | May \<Rightarrow> 5 | June \<Rightarrow> 6 | July \<Rightarrow> 7 | August \<Rightarrow> 8 | September \<Rightarrow> 9
           | October \<Rightarrow> 10 | November \<Rightarrow> 11 | December \<Rightarrow> 12);
        get_time = process_instruction env i st (JObj ((''get_time'', v) # rest));
        get_date = (\<lambda>kind. process_instruction env i st (JObj ((''get_date'', kind) # rest)));
        confirm = (\<lambda>s. Inr (st\<lparr>confirmation_speech := confirmation_speech st @ [s]\<rparr>))
    in
      (\<exists>s. get_time = confirm s) \<and> (\<exists>s. get_date v = confirm s)
    \<and> (h < 24 \<and> m < 60 \<longrightarrow>
         get_time = confirm (''The current time is '' @ two h12 @ '':'' @ two m @
                             (if h < 12 then '' AM'' else '' PM'') @ ''.''))
    \<and> (h = 0 \<and> m = 0 \<longrightarrow> get_time = confirm ''The current time is 12:00 AM.'')
    \<and> (h = 9 \<and> m = 7 \<longrightarrow> get_time = confirm ''The current time is 09:07 AM.'')
    \<and> (h = 12 \<and> m = 30 \<longrightarrow> get_time = confirm ''The current time is 12:30 PM.'')
    \<and> (h = 14 \<and> m = 5 \<longrightarrow> get_time = confirm ''The current time is 02:05 PM.'')
    \<and> (h = 23 \<and> m = 59 \<longrightarrow> get_time = confirm ''The current time is 11:59 PM.'')
    \<and> (d < 100 \<and> 1000 \<le> y \<and> y \<le> 9999 \<longrightarrow>
         get_date (JStr ''full_date'') =
           confirm (''Today is '' @ weekday_text @ '', '' @ month_text @ '' '' @ two d @
                    '', '' @ four y @ ''.''))
    \<and> (\<exists>s. get_date (JStr ''year'') = confirm (''The current year is '' @ s @ ''.'') \<and>
            decimal s y)
    \<and> (1000 \<le> y \<and> y \<le> 9999 \<longrightarrow>
         get_date (JStr ''year'') = confirm (''The current year is '' @ four y @ ''.''))
    \<and> (1 \<le> y \<longrightarrow>
         (\<exists>s. get_date (JStr ''last_year'') = confirm (''Last year was '' @ s @ ''.'') \<and>
              decimal s (y - 1)))
    \<and> (1000 < y \<and> y \<le> 9999 \<longrightarrow>
         get_date (JStr ''last_year'') = confirm (''Last year was '' @ four (y - 1) @ ''.''))
    \<and> (v \<noteq> JStr ''full_date'' \<and> v \<noteq> JStr ''year'' \<and> v \<noteq> JStr ''last_year'' \<and>
        d < 100 \<and> 1000 \<le> y \<and> y \<le> 9999 \<longrightarrow>
         get_date v =
           confirm (''The date today is '' @ four y @ ''-'' @ two month_no @ ''-'' @ two d @
                    ''.'')))"
proof -
  define now where "now = datetime_now env i"
  note time = get_time_confirmation [of env i st v rest, folded now_def]
  note date = get_date_confirmation [of env i st _ rest, folded now_def]
  have last: "1 \<le> year now \<Longrightarrow> str_int (int (year now) - 1) = str_nat (year now - 1)"
    using str_int_nat [of "year now - 1"] by simp
  have c1: "\<exists>s. process_instruction env i st (JObj ((''get_time'', v) # rest)) =
              Inr (st\<lparr>confirmation_speech := confirmation_speech st @ [s]\<rparr>)"
    unfolding time by blast
  have c2: "\<exists>s. process_instruction env i st (JObj ((''get_date'', v) # rest)) =
              Inr (st\<lparr>confirmation_speech := confirmation_speech st @ [s]\<rparr>)"
    unfolding date by blast
  have h12: "hour now < 24 \<Longrightarrow>
      two_digits (hour12 (hour now)) =
        [''0123456789'' ! ((if hour now = 0 \<or> hour now = 12 then 12
                            else if hour now < 12 then hour now else hour now - 12) div 10),
         ''0123456789'' ! ((if hour now = 0 \<or> hour now = 12 then 12
                            else if hour now < 12 then hour now else hour now - 12) mod 10)]"
    using two_digits_nth [OF hour12_small, of "hour now"] hour12_table [of "hour now"]
    by simp
  have two_min: "minute now < 60 \<Longrightarrow>
      two_digits (minute now) =
        [''0123456789'' ! (minute now div 10), ''0123456789'' ! (minute now mod 10)]"
    by (rule two_digits_nth) simp
  have c3: "hour now < 24 \<and> minute now < 60 \<longrightarrow>
      process_instruction env i st (JObj ((''get_time'', v) # rest)) =
      Inr (st\<lparr>confirmation_speech := confirmation_speech st @
            [''The current time is '' @
             [''0123456789'' ! ((if hour now = 0 \<or> hour now = 12 then 12
                                 else if hour now < 12 then hour now else hour now - 12) div 10),
              ''0123456789'' ! ((if hour now = 0 \<or> hour now = 12 then 12
                                 else if hour now < 12 then hour now else hour now - 12) mod 10)] @
             '':'' @
             [''0123456789'' ! (minute now div 10), ''0123456789'' ! (minute now mod 10)] @
             (if hour now < 12 then '' AM'' else '' PM'') @ ''.'']\<rparr>)"
    by (auto simp only: time h12 two_min)
  have c4: "hour now = h' \<and> minute now = m' \<longrightarrow>
      process_instruction env i st (JObj ((''get_time'', v) # rest)) =
      Inr (st\<lparr>confirmation_speech := confirmation_speech st @
            [''The current time is '' @ two_digits (hour12 h') @ '':'' @
             two_digits m' @ (if h' < 12 then '' AM'' else '' PM'') @ ''.'']\<rparr>)" for h' m'
    unfolding time by simp
  have year4: "1000 \<le> year now \<and> year now \<le> 9999 \<longrightarrow>
      str_nat (year now) =
        [''0123456789'' ! (year now div 1000), ''0123456789'' ! (year now div 100 mod 10),
         ''0123456789'' ! (year now div 10 mod 10), ''0123456789'' ! (year now mod 10)]"
    using str_nat_four by blast
  have last4: "1000 < year now \<and> year now \<le> 9999 \<longrightarrow>
      str_int (int (year now) - 1) =
        [''0123456789'' ! ((year now - 1) div 1000),
         ''0123456789'' ! ((year now - 1) div 100 mod 10),
         ''0123456789'' ! ((year now - 1) div 10 mod 10),
         ''0123456789'' ! ((year now - 1) mod 10)]"
  proof
    assume a: "1000 < year now \<and> year now \<le> 9999"
    then have b: "1 \<le> year now" "1000 \<le> year now - 1" "year now - 1 \<le> 9999"
      by linarith+
    show "str_int (int (year now) - 1) =
        [''0123456789'' ! ((year now - 1) div 1000),
         ''0123456789'' ! ((year now - 1) div 100 mod 10),
         ''0123456789'' ! ((year now - 1) div 10 mod 10),
         ''0123456789'' ! ((year now - 1) mod 10)]"
      unfolding last [OF b(1)] by (rule str_nat_four [OF b(2) b(3)])
  qed
  have c_year: "\<exists>s. process_instruction env i st (JObj ((''get_date'', JStr ''year'') # rest)) =
          Inr (st\<lparr>confirmation_speech := confirmation_speech st @
                 [''The current year is '' @ s @ ''.'']\<rparr>) \<and>
          (s \<noteq> [] \<and> set s \<subseteq> set ''0123456789'' \<and> (hd s = CHR ''0'' \<longrightarrow> s = ''0'') \<and>
           foldl (\<lambda>a c. 10 * a + (of_char c - 48)) 0 s = year now)"
    using str_nat_decimal [of "year now"]
    by (intro exI [of _ "str_nat (year now)"]) (simp add: date)
  have c_last: "1 \<le> year now \<longrightarrow>
      (\<exists>s. process_instruction env i st (JObj ((''get_date'', JStr ''last_year'') # rest)) =
          Inr (st\<lparr>confirmation_speech := confirmation_speech st @
                 [''Last year was '' @ s @ ''.'']\<rparr>) \<and>
          (s \<noteq> [] \<and> set s \<subseteq> set ''0123456789'' \<and> (hd s = CHR ''0'' \<longrightarrow> s = ''0'') \<and>
           foldl (\<lambda>a c. 10 * a + (of_char c - 48)) 0 s = year now - 1))"
  proof
    assume a: "1 \<le> year now"
    show "\<exists>s. process_instruction env i st (JObj ((''get_date'', JStr ''last_year'') # rest)) =
          Inr (st\<lparr>confirmation_speech := confirmation_speech st @
                 [''Last year was '' @ s @ ''.'']\<rparr>) \<and>
          (s \<noteq> [] \<and> set s \<subseteq> set ''0123456789'' \<and> (hd s = CHR ''0'' \<longrightarrow> s = ''0'') \<and>
           foldl (\<lambda>a c. 10 * a + (of_char c - 48)) 0 s = year now - 1)"
      using str_nat_decimal [of "year now - 1"]
      by (intro exI [of _ "str_nat (year now - 1)"]) (simp add: date last [OF a])
  qed
  have two_d: "day now < 100 \<longrightarrow>
      two_digits (day now) = [''0123456789'' ! (day now div 10), ''0123456789'' ! (day now mod 10)]"
    using two_digits_nth by blast
  have two_m: "two_digits (month_number (month now)) =
      [''0123456789'' ! (month_number (month now) div 10),
       ''0123456789'' ! (month_number (month now) mod 10)]"
    using two_digits_nth [OF month_number_small] .
  have t0: "hour now = 0 \<and> minute now = 0 \<longrightarrow>
      process_instruction env i st (JObj ((''get_time'', v) # rest)) =
      Inr (st\<lparr>confirmation_speech := confirmation_speech st @
             [''The current time is 12:00 AM.'']\<rparr>)"
    using c4 [of 0 0] by (simp add: two_digits_def digit_def hour12_def)
  have t9: "hour now = 9 \<and> minute now = 7 \<longrightarrow>
      process_instruction env i st (JObj ((''get_time'', v) # rest)) =
      Inr (st\<lparr>confirmation_speech := confirmation_speech st @
             [''The current time is 09:07 AM.'']\<rparr>)"
    using c4 [of 9 7] by (simp add: two_digits_def digit_def hour12_def)
  have t12: "hour now = 12 \<and> minute now = 30 \<longrightarrow>
      process_instruction env i st (JObj ((''get_time'', v) # rest)) =
      Inr (st\<lparr>confirmation_speech := confirmation_speech st @
             [''The current time is 12:30 PM.'']\<rparr>)"
    using c4 [of 12 30] by (simp add: two_digits_def digit_def hour12_def)
  have t14: "hour now = 14 \<and> minute now = 5 \<longrightarrow>
      process_instruction env i st (JObj ((''get_time'', v) # rest)) =
      Inr (st\<lparr>confirmation_speech := confirmation_speech st @
             [''The current time is 02:05 PM.'']\<rparr>)"
    using c4 [of 14 5] by (simp add: two_digits_def digit_def hour12_def)
  have t23: "hour now = 23 \<and> minute now = 59 \<longrightarrow>
      process_instruction env i st (JObj ((''get_time'', v) # rest)) =
      Inr (st\<lparr>confirmation_speech := confirmation_speech st @
             [''The current time is 11:59 PM.'']\<rparr>)"
    using c4 [of 23 59] by (simp add: two_digits_def digit_def hour12_def)
  have full: "day now < 100 \<and> 1000 \<le> year now \<and> year now \<le> 9999 \<longrightarrow>
      process_instruction env i st (JObj ((''get_date'', JStr ''full_date'') # rest)) =
      Inr (st\<lparr>confirmation_speech := confirmation_speech st @
        [''Today is '' @
         (case weekday now of Monday \<Rightarrow> ''Monday'' | Tuesday \<Rightarrow> ''Tuesday''
          | Wednesday \<Rightarrow> ''Wednesday'' | Thursday \<Rightarrow> ''Thursday'' | Friday \<Rightarrow> ''Friday''
          | Saturday \<Rightarrow> ''Saturday'' | Sunday \<Rightarrow> ''Sunday'') @ '', '' @
         (case month now of January \<Rightarrow> ''January'' | February \<Rightarrow> ''February''
          | March \<Rightarrow> ''March'' | April \<Rightarrow> ''April'' | May \<Rightarrow> ''May'' | June \<Rightarrow> ''June''
          | July \<Rightarrow> ''July'' | August \<Rightarrow> ''August'' | September \<Rightarrow> ''September''
          | October \<Rightarrow> ''October'' | November \<Rightarrow> ''November'' | December \<Rightarrow> ''December'') @
         '' '' @ [''0123456789'' ! (day now div 10), ''0123456789'' ! (day now mod 10)] @
         '', '' @
         [''0123456789'' ! (year now div 1000), ''0123456789'' ! (year now div 100 mod 10),
          ''0123456789'' ! (year now div 10 mod 10), ''0123456789'' ! (year now mod 10)] @
         ''.'']\<rparr>)"
    using year4 two_d by (simp add: date weekday_name_cases month_name_cases)
  have yr: "1000 \<le> year now \<and> year now \<le> 9999 \<longrightarrow>
      process_instruction env i st (JObj ((''get_date'', JStr ''year'') # rest)) =
      Inr (st\<lparr>confirmation_speech := confirmation_speech st @
        [''The current year is '' @
         [''0123456789'' ! (year now div 1000), ''0123456789'' ! (year now div 100 mod 10),
          ''0123456789'' ! (year now div 10 mod 10), ''0123456789'' ! (year now mod 10)] @
         ''.'']\<rparr>)"
    using year4 by (simp add: date)
  have ly: "1000 < year now \<and> year now \<le> 9999 \<longrightarrow>
      process_instruction env i st (JObj ((''get_date'', JStr ''last_year'') # rest)) =
      Inr (st\<lparr>confirmation_speech := confirmation_speech st @
        [''Last year was '' @
         [''0123456789'' ! ((year now - 1) div 1000),
          ''0123456789'' ! ((year now - 1) div 100 mod 10),
          ''0123456789'' ! ((year now - 1) div 10 mod 10),
          ''0123456789'' ! ((year now - 1) mod 10)] @
         ''.'']\<rparr>)"
    using last4 by (simp add: date)
  have other: "v \<noteq> JStr ''full_date'' \<and> v \<noteq> JStr ''year'' \<and> v \<noteq> JStr ''last_year'' \<and>
      day now < 100 \<and> 1000 \<le> year now \<and> year now \<le> 9999 \<longrightarrow>
      process_instruction env i st (JObj ((''get_date'', v) # rest)) =
      Inr (st\<lparr>confirmation_speech := confirmation_speech st @
        [''The date today is '' @
         [''0123456789'' ! (year now div 1000), ''0123456789'' ! (year now div 100 mod 10),
          ''0123456789'' ! (year now div 10 mod 10), ''0123456789'' ! (year now mod 10)] @
         ''-'' @
         [''0123456789'' !
            ((case month now of January \<Rightarrow> 1 | February \<Rightarrow> 2 | March \<Rightarrow> 3 | April \<Rightarrow> 4
              | May \<Rightarrow> 5 | June \<Rightarrow> 6 | July \<Rightarrow> 7 | August \<Rightarrow> 8 | September \<Rightarrow> 9
              | October \<Rightarrow> 10 | November \<Rightarrow> 11 | December \<Rightarrow> 12) div 10),
          ''0123456789'' !
            ((case month now of January \<Rightarrow> 1 | February \<Rightarrow> 2 | March \<Rightarrow> 3 | April \<Rightarrow> 4
              | May \<Rightarrow> 5 | June \<Rightarrow> 6 | July \<Rightarrow> 7 | August \<Rightarrow> 8 | September \<Rightarrow> 9
              | October \<Rightarrow> 10 | November \<Rightarrow> 11 | December \<Rightarrow> 12) mod 10)] @
         ''-'' @ [''0123456789'' ! (day now div 10), ''0123456789'' ! (day now mod 10)] @
         ''.'']\<rparr>)"
    using year4 two_d two_m by (simp add: date month_number_cases)
  show ?thesis
    unfolding Let_def now_def [symmetric]
    using c1 c2 c3 t0 t9 t12 t14 t23 full c_year yr c_last ly other
    by (intro conjI) assumption+
qed

text \<open>
  In the example world (Tuesday 3 November 2026, 14:05) the confirmations read as
  follows.
\<close>

theorem get_time_get_date_confirmations_witness:
  "process_instruction (example_world [] (\<lambda>text. None)) 0
      \<lparr>final_instructions = [], confirmation_speech = []\<rparr>
      (JObj [(''get_time'', JStr ''current'')])
    = Inr \<lparr>final_instructions = [],
           confirmation_speech = [''The current time is 02:05 PM.'']\<rparr>
   \<and> process_instruction (example_world [] (\<lambda>text. None)) 0
      \<lparr>final_instructions = [], confirmation_speech = []\<rparr>
      (JObj [(''get_date'', JStr ''full_date'')])
    = Inr \<lparr>final_instructions = [],
           confirmation_speech = [''Today is Tuesday, November 03, 2026.'']\<rparr>
   \<and> process_instruction (example_world [] (\<lambda>text. None)) 0
      \<lparr>final_instructions = [], confirmation_speech = []\<rparr>
      (JObj [(''get_date'', JStr ''last_year'')])
    = Inr \<lparr>final_instructions = [],
           confirmation_speech = [''Last year was 2025.'']\<rparr>
   \<and> process_instruction (example_world [] (\<lambda>text. None)) 0
      \<lparr>final_instructions = [], confirmation_speech = []\<rparr>
      (JObj [(''get_date'', JStr ''iso'')])
    = Inr \<lparr>final_instructions = [],
           confirmation_speech = [''The date today is 2026-11-03.'']\<rparr>"
proof -
  let ?env = "example_world [] (\<lambda>text. None)"
  let ?st = "\<lparr>final_instructions = [], confirmation_speech = []\<rparr>"
  have now: "datetime_now ?env 0 = afternoon"
    by (simp add: example_world_def)
  from get_time_get_date_confirmations [of ?env 0 ?st "JStr ''iso''" "[]"]
  have "process_instruction ?env 0 ?st (JObj [(''get_time'', JStr ''iso'')]) =
          Inr \<lparr>final_instructions = [],
               confirmation_speech = [''The current time is 02:05 PM.'']\<rparr>"
    and "process_instruction ?env 0 ?st (JObj [(''get_date'', JStr ''full_date'')]) =
          Inr \<lparr>final_instructions = [],
               confirmation_speech = [''Today is Tuesday, November 03, 2026.'']\<rparr>"
    and "process_instruction ?env 0 ?st (JObj [(''get_date'', JStr ''last_year'')]) =
          Inr \<lparr>final_instructions = [],
               confirmation_speech = [''Last year was 2025.'']\<rparr>"
    and "process_instruction ?env 0 ?st (JObj [(''get_date'', JStr ''iso'')]) =
          Inr \<lparr>final_instructions = [],
               confirmation_speech = [''The date today is 2026-11-03.'']\<rparr>"
    by (simp_all add: Let_def now afternoon_def)
  moreover have "process_instruction ?env 0 ?st (JObj [(''get_time'', JStr ''current'')]) =
                 process_instruction ?env 0 ?st (JObj [(''get_time'', JStr ''iso'')])"
    by (simp add: process_instruction_object)
  ultimately show ?thesis by simp
qed

text \<open>
  Claim C10. The value under \<^verbatim>\<open>get_time\<close> is ignored: at the same position of the loop
  (the same reading of the clock) and from the same lists, two \<^verbatim>\<open>get_time\<close> commands
  with any two values have the same outcome, which adds one confirmation and leaves
  the client instructions as they were.
\<close>

theorem get_time_ignores_its_value:
  "process_instruction env i st (JObj [(''get_time'', v1)]) =
     process_instruction env i st (JObj [(''get_time'', v2)])
   \<and> process_instruction env i st (JObj [(''get_time'', v1)]) =
       Inr (st\<lparr>confirmation_speech := confirmation_speech st @
              [''The current time is '' @ strftime (datetime_now env i) ''%I:%M %p'' @ ''.'']\<rparr>)
   \<and> dispatch_one env i (JObj [(''get_time'', v1)]) =
       dispatch_one env i (JObj [(''get_time'', v2)])
   \<and> dispatch_one env i (JObj [(''get_time'', v1)]) =
       Inr \<lparr>final_instructions = [],
            confirmation_speech =
              [''The current time is '' @ strftime (datetime_now env i) ''%I:%M %p'' @ ''.'']\<rparr>"
  by (simp add: dispatch_one_def process_instruction_object)

theorem get_time_ignores_its_value_witness:
  "dispatch_one (example_world [] (\<lambda>text. None)) 0 (JObj [(''get_time'', JStr ''current'')]) =
   dispatch_one (example_world [] (\<lambda>text. None)) 0 (JObj [(''get_time'', JArr [JNull, JInt 7])])"
  using get_time_ignores_its_value
          [of "example_world [] (\<lambda>text. None)" 0 _ "JStr ''current''" "JArr [JNull, JInt 7]"]
  by simp

section \<open>Facts about the handler\<close>

lemma map_of_dict_setitem:
  "map_of (dict_setitem kvs key v) k = (if k = key then Some v else map_of kvs k)"
  by (induction kvs key v rule: dict_setitem.induct) auto

lemma storable_JStr: "storable (JStr s)"
  by (simp add: storable_def sql_null_def)

lemma foldl_sep_prefix:
  "foldl (\<lambda>a s. a @ sep @ s) (p @ x) xs = p @ foldl (\<lambda>a s. a @ sep @ s) x xs"
  by (induction xs arbitrary: x) simp_all

lemma join_foldl:
  "join sep (x # xs) = foldl (\<lambda>a s. a @ sep @ s) x xs"
proof (induction xs arbitrary: x)
  case Nil
  show ?case by simp
next
  case (Cons y ys)
  have "foldl (\<lambda>a s. a @ sep @ s) x (y # ys) =
        foldl (\<lambda>a s. a @ sep @ s) ((x @ sep) @ y) ys"
    by simp
  also have "\<dots> = (x @ sep) @ foldl (\<lambda>a s. a @ sep @ s) y ys"
    by (rule foldl_sep_prefix)
  finally show ?case by (simp add: Cons.IH)
qed

lemma depth_nested: "depth (nested n) = Suc n"
  by (induction n) simp_all

lemma jsonify_flat:
  "depth body \<le> 4 \<Longrightarrow> jsonify env body = Inr body"
  by (simp add: jsonify_def)

lemma jsonify_cases:
  "jsonify env body = Inr body \<or> jsonify env body = Inl RecursionError"
  by (simp add: jsonify_def)

lemma store_and_return_storable:
  "storable (message req) \<Longrightarrow> storable bot_response_text \<Longrightarrow>
     store_and_return env conn req bot_response_text body =
       (jsonify env body,
        conn @ [\<lparr>user_id = session_user_id req, user_message = sql_text env (message req),
                  bot_response = sql_text env bot_response_text\<rparr>])"
  by (simp add: store_and_return_def insert_conversation_def storable_def)






text \<open>Past the guards and the decoder, the response is that of the action processing.\<close>

lemma chat_api_answers:
  "answers env req conn response_json \<Longrightarrow>
     chat_api env req conn =
       (case action_processing env req conn response_json of
          (Inr body, conn') \<Rightarrow> ((body, 200), conn')
        | (Inl e, conn') \<Rightarrow>
            ((if e = JSONDecodeError then trouble_reply else unexpected_reply, 500), conn'))"
  by (auto simp: answers_def chat_api_def chat_try_def split: option.splits sum.splits prod.splits)

lemma instruction_response_listed:
  assumes "py_iter (case map_of kvs ''instruction'' of None \<Rightarrow> JArr [] | Some v \<Rightarrow> v) = Inr instrs"
    and "process_instructions env 0 \<lparr>final_instructions = [], confirmation_speech = []\<rparr> instrs
           = Inr st"
  shows "instruction_response env (JObj kvs) =
     (if confirmation_speech st \<noteq> []
      then Inr (JObj [(''action'', JStr ''instruction_and_conversation''),
                      (''speech'', JStr (join '' '' (confirmation_speech st))),
                      (''instruction'', JArr (final_instructions st))],
                JStr (join '' '' (confirmation_speech st)))
      else Inr (JObj (dict_setitem kvs ''instruction'' (JArr (final_instructions st))),
                case map_of kvs ''speech'' of
                  None \<Rightarrow> JStr ''Executing instruction.''
                | Some v \<Rightarrow> v))"
  using assms by (simp add: instruction_response_def map_of_dict_setitem)

lemma action_processing_instruction:
  assumes "map_of kvs ''action'' = Some (JStr ''instruction'')"
    and "instruction_response env (JObj kvs) = Inr (final_response, bot_response_text)"
  shows "action_processing env req conn (JObj kvs) =
           store_and_return env conn req bot_response_text final_response"
  using assms by (simp add: action_processing_def)


text \<open>Texts that \<^verbatim>\<open>strip\<close> and the removal of the code fences leave as they are.\<close>

lemma strip_same:
  "s \<noteq> [] \<Longrightarrow> \<not> isspace (hd s) \<Longrightarrow> \<not> isspace (last s) \<Longrightarrow> strip s = s"
proof -
  assume a: "s \<noteq> []" "\<not> isspace (hd s)" "\<not> isspace (last s)"
  from a(1,2) have "dropWhile isspace s = s"
    by (cases s) simp_all
  moreover from a(1,3) have "dropWhile isspace (rev s) = rev s"
    by (cases "rev s") (simp_all add: hd_rev [symmetric])
  ultimately show ?thesis by (simp add: strip_def)
qed

lemma replace_absent:
  "c \<notin> set s \<Longrightarrow> replace (c # old) new s = s"
  by (induction s) auto

lemma fences_absent:
  "s \<noteq> [] \<Longrightarrow> \<not> isspace (hd s) \<Longrightarrow> \<not> isspace (last s) \<Longrightarrow> CHR 0x60 \<notin> set s \<Longrightarrow>
     replace ''```'' [] (replace ''```json'' [] (strip s)) = s"
  by (simp add: strip_same replace_absent)

section \<open>Claims about the response and the history\<close>

text \<open>
  Claim C9. For \<^verbatim>\<open>play_youtube_direct\<close> and \<^verbatim>\<open>play_spotify_direct\<close> the adapter always
  returns a pair of an optional URL and a message; the loop appends the message to the
  confirmations, and appends \<^verbatim>\<open>{"open_url": url}\<close> to the client instructions exactly
  when a URL was returned. When the command list is the single command
  \<^verbatim>\<open>play_youtube_direct\<close> or the single command \<^verbatim>\<open>play_spotify_direct\<close> and the adapter
  returns no URL, the response is
  \<^verbatim>\<open>{action: instruction_and_conversation, speech: message, instruction: []}\<close> with
  status 200, and the message is the text written to the history (the user's message
  being a value the table can store).
\<close>

theorem play_commands_confirm_and_open_url:
  "(\<exists>url speech.
      get_youtube_video_url env i v = Inr (url, speech) \<and>
      process_instruction env i st (JObj ((''play_youtube_direct'', v) # rest)) =
        Inr (st\<lparr>final_instructions := final_instructions st @
                     (case url of None \<Rightarrow> [] | Some u \<Rightarrow> [JObj [(''open_url'', JStr u)]]),
                 confirmation_speech := confirmation_speech st @ [speech]\<rparr>))
   \<and> (\<exists>url speech.
      get_spotify_track_url env i v = Inr (url, speech) \<and>
      process_instruction env i st (JObj ((''play_spotify_direct'', v) # rest)) =
        Inr (st\<lparr>final_instructions := final_instructions st @
                     (case url of None \<Rightarrow> [] | Some u \<Rightarrow> [JObj [(''open_url'', JStr u)]]),
                 confirmation_speech := confirmation_speech st @ [speech]\<rparr>))
   \<and> (answers env req conn (JObj kvs) \<and> storable (message req) \<and>
      map_of kvs ''action'' = Some (JStr ''instruction'') \<and>
      map_of kvs ''instruction'' = Some (JArr [JObj ((''play_youtube_direct'', v) # rest)]) \<and>
      get_youtube_video_url env 0 v = Inr (None, speech)
      \<longrightarrow> chat_api env req conn =
            ((JObj [(''action'', JStr ''instruction_and_conversation''),
                    (''speech'', JStr speech),
                    (''instruction'', JArr [])], 200),
             conn @ [\<lparr>user_id = session_user_id req,
                       user_message = sql_text env (message req),
                       bot_response = speech\<rparr>]))
   \<and> (answers env req conn (JObj kvs) \<and> storable (message req) \<and>
      map_of kvs ''action'' = Some (JStr ''instruction'') \<and>
      map_of kvs ''instruction'' = Some (JArr [JObj ((''play_spotify_direct'', v) # rest)]) \<and>
      get_spotify_track_url env 0 v = Inr (None, speech)
      \<longrightarrow> chat_api env req conn =
            ((JObj [(''action'', JStr ''instruction_and_conversation''),
                    (''speech'', JStr speech),
                    (''instruction'', JArr [])], 200),
             conn @ [\<lparr>user_id = session_user_id req,
                       user_message = sql_text env (message req),
                       bot_response = speech\<rparr>]))"
proof (intro conjI impI)
  obtain url speech where y: "get_youtube_video_url env i v = Inr (url, speech)"
    using youtube_never_raises by blast
  then have "url = Some [] \<Longrightarrow> False"
    using youtube_url_nonempty by blast
  with y show "\<exists>url speech.
      get_youtube_video_url env i v = Inr (url, speech) \<and>
      process_instruction env i st (JObj ((''play_youtube_direct'', v) # rest)) =
        Inr (st\<lparr>final_instructions := final_instructions st @
                     (case url of None \<Rightarrow> [] | Some u \<Rightarrow> [JObj [(''open_url'', JStr u)]]),
                 confirmation_speech := confirmation_speech st @ [speech]\<rparr>)"
    by (auto simp: process_instruction_object split: option.splits)
next
  obtain url speech where s: "get_spotify_track_url env i v = Inr (url, speech)"
    using spotify_never_raises by blast
  then have "url = Some [] \<Longrightarrow> False"
    using spotify_url_nonempty by blast
  with s show "\<exists>url speech.
      get_spotify_track_url env i v = Inr (url, speech) \<and>
      process_instruction env i st (JObj ((''play_spotify_direct'', v) # rest)) =
        Inr (st\<lparr>final_instructions := final_instructions st @
                     (case url of None \<Rightarrow> [] | Some u \<Rightarrow> [JObj [(''open_url'', JStr u)]]),
                 confirmation_speech := confirmation_speech st @ [speech]\<rparr>)"
    by (auto simp: process_instruction_object split: option.splits)
next
  assume a: "answers env req conn (JObj kvs) \<and> storable (message req) \<and>
      map_of kvs ''action'' = Some (JStr ''instruction'') \<and>
      map_of kvs ''instruction'' = Some (JArr [JObj ((''play_youtube_direct'', v) # rest)]) \<and>
      get_youtube_video_url env 0 v = Inr (None, speech)"
  let ?instrs = "[JObj ((''play_youtube_direct'', v) # rest)]"
  from a have
    it: "py_iter (case map_of kvs ''instruction'' of None \<Rightarrow> JArr [] | Some v \<Rightarrow> v) = Inr ?instrs"
    by simp
  from a have run:
    "process_instructions env 0 \<lparr>final_instructions = [], confirmation_speech = []\<rparr> ?instrs
       = Inr \<lparr>final_instructions = [], confirmation_speech = [speech]\<rparr>"
    by (simp add: process_instruction_object)
  from instruction_response_listed [OF it run]
  have "instruction_response env (JObj kvs) =
          Inr (JObj [(''action'', JStr ''instruction_and_conversation''),
                     (''speech'', JStr speech), (''instruction'', JArr [])], JStr speech)"
    by simp
  from action_processing_instruction [OF _ this] a
  show "chat_api env req conn =
            ((JObj [(''action'', JStr ''instruction_and_conversation''),
                    (''speech'', JStr speech),
                    (''instruction'', JArr [])], 200),
             conn @ [\<lparr>user_id = session_user_id req,
                       user_message = sql_text env (message req),
                       bot_response = speech\<rparr>])"
    by (simp add: chat_api_answers [of env req conn "JObj kvs"]
                  store_and_return_storable [OF _ storable_JStr] jsonify_flat)
next
  assume a: "answers env req conn (JObj kvs) \<and> storable (message req) \<and>
      map_of kvs ''action'' = Some (JStr ''instruction'') \<and>
      map_of kvs ''instruction'' = Some (JArr [JObj ((''play_spotify_direct'', v) # rest)]) \<and>
      get_spotify_track_url env 0 v = Inr (None, speech)"
  let ?instrs = "[JObj ((''play_spotify_direct'', v) # rest)]"
  from a have
    it: "py_iter (case map_of kvs ''instruction'' of None \<Rightarrow> JArr [] | Some v \<Rightarrow> v) = Inr ?instrs"
    by simp
  from a have run:
    "process_instructions env 0 \<lparr>final_instructions = [], confirmation_speech = []\<rparr> ?instrs
       = Inr \<lparr>final_instructions = [], confirmation_speech = [speech]\<rparr>"
    by (simp add: process_instruction_object)
  from instruction_response_listed [OF it run]
  have "instruction_response env (JObj kvs) =
          Inr (JObj [(''action'', JStr ''instruction_and_conversation''),
                     (''speech'', JStr speech), (''instruction'', JArr [])], JStr speech)"
    by simp
  from action_processing_instruction [OF _ this] a
  show "chat_api env req conn =
            ((JObj [(''action'', JStr ''instruction_and_conversation''),
                    (''speech'', JStr speech),
                    (''instruction'', JArr [])], 200),
             conn @ [\<lparr>user_id = session_user_id req,
                       user_message = sql_text env (message req),
                       bot_response = speech\<rparr>])"
    by (simp add: chat_api_answers [of env req conn "JObj kvs"]
                  store_and_return_storable [OF _ storable_JStr] jsonify_flat)
qed

text \<open>
  The model answers \<^verbatim>\<open>{"action":"instruction","instruction":[{"play_youtube_direct":
  "lofi"}]}\<close> and the YouTube search finds no video.
\<close>

theorem play_commands_confirm_and_open_url_witness:
  \<open>chat_api
     ((example_world
        ''{"action":"instruction","instruction":[{"play_youtube_direct":"lofi"}]}''
        (decodes_to
           ''{"action":"instruction","instruction":[{"play_youtube_direct":"lofi"}]}''
           (JObj [(''action'', JStr ''instruction''),
                  (''instruction'', JArr [JObj [(''play_youtube_direct'', JStr ''lofi'')]])])))
      \<lparr>youtube := Some empty_youtube\<rparr>)
     example_request []
   = ((JObj [(''action'', JStr ''instruction_and_conversation''),
             (''speech'', JStr (''I couldn't find any YouTube videos for '' @ quoted ''lofi'' @ ''.'')),
             (''instruction'', JArr [])], 200),
      [\<lparr>user_id = 1, user_message = ''hello'',
        bot_response = ''I couldn't find any YouTube videos for '' @ quoted ''lofi'' @ ''.''\<rparr>])\<close>
proof -
  let ?text = \<open>''{"action":"instruction","instruction":[{"play_youtube_direct":"lofi"}]}''\<close>
  let ?kvs = "[(''action'', JStr ''instruction''),
               (''instruction'', JArr [JObj [(''play_youtube_direct'', JStr ''lofi'')]])]"
  let ?env = "(example_world ?text (decodes_to ?text (JObj ?kvs)))\<lparr>youtube := Some empty_youtube\<rparr>"
  let ?speech = "''I couldn't find any YouTube videos for '' @ quoted ''lofi'' @ ''.''"
  have clean: "replace ''```'' [] (replace ''```json'' [] (strip ?text)) = ?text"
    by (simp add: strip_def isspace_def)
  have a: "answers ?env example_request [] (JObj ?kvs)"
    unfolding answers_def model_response_def
    by (simp add: example_world_def example_request_def decodes_to_def clean)
  have b: "storable (message example_request)"
    by (simp add: example_request_def storable_JStr)
  have c: "get_youtube_video_url ?env 0 (JStr ''lofi'') = Inr (None, ?speech)"
    by (simp add: get_youtube_video_url_def youtube_try_def example_world_def empty_youtube_def)
  from play_commands_confirm_and_open_url
         [of ?env 0 "JStr ''lofi''" _ "[]" example_request "[]" ?kvs ?speech] a b c
  show ?thesis by (simp add: example_request_def)
qed

section \<open>Facts about objects that are passed through\<close>


lemma dict_setitem_same:
  "map_of kvs key = Some v \<Longrightarrow> dict_setitem kvs key v = kvs"
  by (induction kvs key v rule: dict_setitem.induct) (auto split: if_splits)

lemma process_instructions_append:
  "process_instructions env i st (xs @ ys) =
     and_then (process_instructions env i st xs) (\<lambda>st'.
     process_instructions env (i + length xs) st' ys)"
proof (induction xs arbitrary: i st)
  case Nil
  then show ?case by simp
next
  case (Cons x xs)
  show ?case
    by (cases "process_instruction env i st x") (simp_all add: Cons.IH)
qed

text \<open>
  A command that adds no confirmation is passed through: its output is the command
  itself.
\<close>

lemma dispatch_one_silent:
  assumes "dispatch_one env i instr = Inr out" and "confirmation_speech out = []"
  shows "final_instructions out = [instr]"
proof (cases instr)
  case (JObj kvs)
  show ?thesis
  proof (cases kvs)
    case Nil
    with JObj assms show ?thesis
      by (simp add: dispatch_one_def process_instruction_empty_object)
  next
    case (Cons kv rest)
    obtain k v where kv: "kv = (k, v)" by (cases kv)
    obtain yu ys where y: "get_youtube_video_url env i v = Inr (yu, ys)"
      using youtube_never_raises by blast
    obtain su ss where s: "get_spotify_track_url env i v = Inr (su, ss)"
      using spotify_never_raises by blast
    from assms(1) have b: "dispatch_one env i (JObj ((k, v) # rest)) = Inr out"
      by (simp add: JObj Cons kv)
    consider "k = ''get_time''" | "k = ''get_date''" | "k = ''get_weather''"
      | "k = ''play_youtube_direct''" | "k = ''play_spotify_direct''"
      | "k \<notin> set server_side"
      by (auto simp: server_side_def)
    then show ?thesis
    proof cases
      case 1
      with b assms(2) show ?thesis
        by (auto simp: dispatch_one_def process_instruction_object)
    next
      case 2
      with b assms(2) show ?thesis
        by (auto simp: dispatch_one_def process_instruction_object)
    next
      case 3
      with b assms(2) show ?thesis
        by (cases "get_weather env i v") (auto simp: dispatch_one_def process_instruction_object)
    next
      case 4
      with b assms(2) show ?thesis
        by (auto simp: dispatch_one_def process_instruction_object y)
    next
      case 5
      with b assms(2) show ?thesis
        by (auto simp: dispatch_one_def process_instruction_object s)
    next
      case 6
      with b show ?thesis
        by (auto simp: dispatch_one_def process_instruction_pass_through JObj Cons kv)
    qed
  qed
next
  case JNull with assms show ?thesis by (simp add: dispatch_one_def process_instruction_not_object)
next
  case JBool with assms show ?thesis by (simp add: dispatch_one_def process_instruction_not_object)
next
  case JInt with assms show ?thesis by (simp add: dispatch_one_def process_instruction_not_object)
next
  case JFloat with assms show ?thesis by (simp add: dispatch_one_def process_instruction_not_object)
next
  case JStr with assms show ?thesis by (simp add: dispatch_one_def process_instruction_not_object)
next
  case JArr with assms show ?thesis by (simp add: dispatch_one_def process_instruction_not_object)
qed

lemma process_instructions_grows:
  "process_instructions env i st instrs = Inr st' \<Longrightarrow>
     length (confirmation_speech st) \<le> length (confirmation_speech st')"
  by (drule loop_outputs) auto

lemma process_instructions_silent:
  "process_instructions env i st instrs = Inr st' \<Longrightarrow>
   confirmation_speech st' = confirmation_speech st \<Longrightarrow>
     final_instructions st' = final_instructions st @ instrs"
proof (induction instrs arbitrary: i st)
  case Nil
  then show ?case by simp
next
  case (Cons instr instrs)
  from Cons.prems(1) obtain st1 where
    one: "process_instruction env i st instr = Inr st1" and
    more: "process_instructions env (Suc i) st1 instrs = Inr st'"
    by (auto simp: and_then_Inr_iff)
  from one obtain out where
    out: "dispatch_one env i instr = Inr out" and st1: "st1 = extend st out"
    by (auto simp: process_instruction_frame [of env i st] and_then_Inr_iff)
  from process_instructions_grows [OF more] Cons.prems(2) st1
  have silent: "confirmation_speech out = []"
    by (simp add: extend_def)
  with st1 Cons.prems(2) have "confirmation_speech st' = confirmation_speech st1"
    by (simp add: extend_def)
  from Cons.IH [OF more this] st1 dispatch_one_silent [OF out silent]
  show ?case by (simp add: extend_def)
qed

section \<open>Claims that the code does not meet as stated\<close>




text \<open>
  Claim C2, as stated, asks that no element of the command list, whatever its shape,
  makes the processing of the other elements fail. The loop reads the first key of
  every element: on the list \<^verbatim>\<open>[{"open_website":"wikipedia"}, {}]\<close> the empty object
  raises \<^verbatim>\<open>IndexError\<close>, and on \<^verbatim>\<open>[{"open_website":"wikipedia"}, "play"]\<close> the string
  raises \<^verbatim>\<open>AttributeError\<close>; the loop ends there, and the request is answered with the
  apology and status 500, without the command that was well formed.
\<close>

theorem malformed_element_fails_request_counterexample:
  \<open>process_instructions (example_world [] (\<lambda>text. None)) 0
      \<lparr>final_instructions = [], confirmation_speech = []\<rparr>
      [JObj [(''open_website'', JStr ''wikipedia'')], JObj []]
    = Inl IndexError
   \<and> process_instructions (example_world [] (\<lambda>text. None)) 0
      \<lparr>final_instructions = [], confirmation_speech = []\<rparr>
      [JObj [(''open_website'', JStr ''wikipedia'')], JStr ''play'']
    = Inl AttributeError
   \<and> chat_api
       (example_world ''{"action":"instruction","instruction":[{"open_website":"wikipedia"},{}]}''
          (decodes_to ''{"action":"instruction","instruction":[{"open_website":"wikipedia"},{}]}''
             (JObj [(''action'', JStr ''instruction''),
                    (''instruction'', JArr [JObj [(''open_website'', JStr ''wikipedia'')],
                                            JObj []])])))
       example_request []
    = ((JObj [(''action'', JStr ''conversation''),
              (''speech'', JStr ''I'm sorry, an unexpected error occurred. Please try again.'')],
        500), [])\<close>
  by (simp add: chat_api_def chat_try_def model_response_def action_processing_def
                instruction_response_def process_instruction_def
                unexpected_reply_def conversation_reply_def
                example_world_def example_request_def decodes_to_def strip_def isspace_def)

text \<open>
  Claim C2, amended. Every element of the command list that is an object with at least
  one key is dispatched on its first key. An element whose first key is none of the five
  names handled on the server is appended unchanged to the client instructions; it
  calls no provider and never raises, so the loop over a list that holds it goes on
  with the elements after it exactly as it would without it. In particular four
  well-formed commands and one unrecognized object yield the results of the four and
  the unrecognized object, passed through in its place.
\<close>

theorem unknown_commands_pass_through:
  "(k \<notin> set server_side \<longrightarrow>
      process_instruction env i st (JObj ((k, v) # rest)) =
        Inr (st\<lparr>final_instructions := final_instructions st @ [JObj ((k, v) # rest)]\<rparr>))
   \<and> (k \<notin> set server_side \<longrightarrow>
      process_instructions env i st (xs @ JObj ((k, v) # rest) # ys) =
        and_then (process_instructions env i st xs) (\<lambda>st'.
        process_instructions env (Suc (i + length xs))
          (st'\<lparr>final_instructions := final_instructions st' @ [JObj ((k, v) # rest)]\<rparr>) ys))
   \<and> process_instructions env 0 \<lparr>final_instructions = [], confirmation_speech = []\<rparr>
        [JObj [(''get_time'', JStr ''current'')],
         JObj [(''search_google'', JStr ''isabelle'')],
         JObj [(''fly_to_the_moon'', JInt 1)],
         JObj [(''get_date'', JStr ''year'')],
         JObj [(''open_website'', JStr ''wikipedia'')]]
       = Inr \<lparr>final_instructions =
                [JObj [(''search_google'', JStr ''isabelle'')],
                 JObj [(''fly_to_the_moon'', JInt 1)],
                 JObj [(''open_website'', JStr ''wikipedia'')]],
              confirmation_speech =
                [''The current time is '' @ strftime (datetime_now env 0) ''%I:%M %p'' @ ''.'',
                 ''The current year is '' @ str_nat (year (datetime_now env 3)) @ ''.'']\<rparr>"
proof (intro conjI impI)
  assume "k \<notin> set server_side"
  then show "process_instruction env i st (JObj ((k, v) # rest)) =
        Inr (st\<lparr>final_instructions := final_instructions st @ [JObj ((k, v) # rest)]\<rparr>)"
    by (rule process_instruction_pass_through)
next
  assume "k \<notin> set server_side"
  then show "process_instructions env i st (xs @ JObj ((k, v) # rest) # ys) =
        and_then (process_instructions env i st xs) (\<lambda>st'.
        process_instructions env (Suc (i + length xs))
          (st'\<lparr>final_instructions := final_instructions st' @ [JObj ((k, v) # rest)]\<rparr>) ys)"
    by (simp add: process_instructions_append process_instruction_pass_through)
next
  show "process_instructions env 0 \<lparr>final_instructions = [], confirmation_speech = []\<rparr>
        [JObj [(''get_time'', JStr ''current'')],
         JObj [(''search_google'', JStr ''isabelle'')],
         JObj [(''fly_to_the_moon'', JInt 1)],
         JObj [(''get_date'', JStr ''year'')],
         JObj [(''open_website'', JStr ''wikipedia'')]]
       = Inr \<lparr>final_instructions =
                [JObj [(''search_google'', JStr ''isabelle'')],
                 JObj [(''fly_to_the_moon'', JInt 1)],
                 JObj [(''open_website'', JStr ''wikipedia'')]],
              confirmation_speech =
                [''The current time is '' @ strftime (datetime_now env 0) ''%I:%M %p'' @ ''.'',
                 ''The current year is '' @ str_nat (year (datetime_now env 3)) @ ''.'']\<rparr>"
    by (simp add: process_instruction_object numeral_3_eq_3)
qed

text \<open>
  In the example world the object \<^verbatim>\<open>{"fly_to_the_moon": 1}\<close> between two well-formed
  commands is handed to the client, and the commands around it are carried out.
\<close>

theorem unknown_commands_pass_through_witness:
  "process_instructions (example_world [] (\<lambda>text. None)) 0
      \<lparr>final_instructions = [], confirmation_speech = []\<rparr>
      ([JObj [(''get_time'', JStr ''current'')]] @
       JObj [(''fly_to_the_moon'', JInt 1)] # [JObj [(''get_date'', JStr ''last_year'')]])
    = Inr \<lparr>final_instructions = [JObj [(''fly_to_the_moon'', JInt 1)]],
           confirmation_speech = [''The current time is 02:05 PM.'', ''Last year was 2025.'']\<rparr>"
proof -
  have "''fly_to_the_moon'' \<notin> set server_side"
    by (simp add: server_side_def)
  with unknown_commands_pass_through
         [of "''fly_to_the_moon''" "example_world [] (\<lambda>text. None)" 0
             "\<lparr>final_instructions = [], confirmation_speech = []\<rparr>" "JInt 1" "[]"
             "[JObj [(''get_time'', JStr ''current'')]]"
             "[JObj [(''get_date'', JStr ''last_year'')]]"]
  show ?thesis
    by (simp add: process_instruction_object example_world_def afternoon_def directive_def
                  two_digits_def digit_def hour12_def str_nat.simps str_int_def)
qed

text \<open>
  Claim C4, as stated, asks that with zero confirmations the response is exactly
  \<^verbatim>\<open>{action, instruction}\<close> without a \<^verbatim>\<open>speech\<close> key and that the history gets
  ``Executing instruction.''. With zero confirmations the handler returns the model's
  own object, so a \<^verbatim>\<open>speech\<close> that the model put beside its commands stays in the
  response and is the text written to the history: for
  \<^verbatim>\<open>{"action":"instruction","speech":"Opening Wikipedia","instruction":[{"open_website":
  "wikipedia"}]}\<close> the response carries the speech and the history row is ``Opening
  Wikipedia''.
\<close>

theorem model_speech_is_kept_counterexample:
  \<open>chat_api
     (example_world
        ''{"action":"instruction","speech":"Opening Wikipedia","instruction":[{"open_website":"wikipedia"}]}''
        (decodes_to
           ''{"action":"instruction","speech":"Opening Wikipedia","instruction":[{"open_website":"wikipedia"}]}''
           (JObj [(''action'', JStr ''instruction''),
                  (''speech'', JStr ''Opening Wikipedia''),
                  (''instruction'', JArr [JObj [(''open_website'', JStr ''wikipedia'')]])])))
     example_request []
   = ((JObj [(''action'', JStr ''instruction''),
             (''speech'', JStr ''Opening Wikipedia''),
             (''instruction'', JArr [JObj [(''open_website'', JStr ''wikipedia'')]])], 200),
      [\<lparr>user_id = 1, user_message = ''hello'',
        bot_response = ''Opening Wikipedia''\<rparr>])\<close>
  by (simp add: chat_api_def chat_try_def model_response_def action_processing_def
                instruction_response_def process_instruction_def
                store_and_return_def insert_conversation_def sql_null_def jsonify_def
                example_world_def example_request_def decodes_to_def strip_def isspace_def)

text \<open>
  Claim C4, amended. When the decoded object has \<^verbatim>\<open>action = "instruction"\<close> and no
  \<^verbatim>\<open>speech\<close> key, its command list is processed with zero confirmations, and the user's
  message is a value the table can store, then every command was passed through and the
  text written to the history is the literal ``Executing instruction.''. If \<^verbatim>\<open>jsonify\<close>
  serialises the response, the response is the decoded object itself, its
  \<^verbatim>\<open>instruction\<close> being the list of client instructions (exactly \<^verbatim>\<open>{action: instruction,
  instruction: ...}\<close> when the object has these two keys only), it has no \<^verbatim>\<open>speech\<close> key,
  and the status is 200. If \<^verbatim>\<open>jsonify\<close> raises (the object is nested too deeply), the
  response is the apology with status 500, and the row is in the table all the same.
  An object of at most four levels is always serialised.
\<close>

theorem no_confirmation_executing_instruction:
  assumes "answers env req conn (JObj kvs)"
    and "storable (message req)"
    and "map_of kvs ''action'' = Some (JStr ''instruction'')"
    and "map_of kvs ''instruction'' = Some (JArr instrs)"
    and "map_of kvs ''speech'' = None"
    and "process_instructions env 0 \<lparr>final_instructions = [], confirmation_speech = []\<rparr> instrs
           = Inr st"
    and "confirmation_speech st = []"
  shows "(jsonify env (JObj kvs) \<noteq> Inl RecursionError \<longrightarrow>
          chat_api env req conn =
           ((JObj (dict_setitem kvs ''instruction'' (JArr (final_instructions st))), 200),
            conn @ [\<lparr>user_id = session_user_id req,
                      user_message = sql_text env (message req),
                      bot_response = ''Executing instruction.''\<rparr>]))
       \<and> (jsonify env (JObj kvs) = Inl RecursionError \<longrightarrow>
          chat_api env req conn =
           ((JObj [(''action'', JStr ''conversation''),
                   (''speech'',
                    JStr ''I'm sorry, an unexpected error occurred. Please try again.'')], 500),
            conn @ [\<lparr>user_id = session_user_id req,
                      user_message = sql_text env (message req),
                      bot_response = ''Executing instruction.''\<rparr>]))
       \<and> final_instructions st = instrs
       \<and> dict_setitem kvs ''instruction'' (JArr (final_instructions st)) = kvs
       \<and> map_of (dict_setitem kvs ''instruction'' (JArr (final_instructions st))) ''speech'' = None
       \<and> (kvs = [(''action'', JStr ''instruction''), (''instruction'', JArr instrs)] \<and>
          jsonify env (JObj kvs) \<noteq> Inl RecursionError \<longrightarrow>
            chat_api env req conn =
              ((JObj [(''action'', JStr ''instruction''),
                      (''instruction'', JArr (final_instructions st))], 200),
               conn @ [\<lparr>user_id = session_user_id req,
                         user_message = sql_text env (message req),
                         bot_response = ''Executing instruction.''\<rparr>]))
       \<and> (depth (JObj kvs) \<le> 4 \<longrightarrow> jsonify env (JObj kvs) \<noteq> Inl RecursionError)"
proof -
  let ?rows = "conn @ [\<lparr>user_id = session_user_id req,
                         user_message = sql_text env (message req),
                         bot_response = ''Executing instruction.''\<rparr>]"
  from process_instructions_silent [OF assms(6)] assms(7)
  have same: "final_instructions st = instrs" by simp
  with assms(4) have unchanged:
    "dict_setitem kvs ''instruction'' (JArr (final_instructions st)) = kvs"
    by (simp add: dict_setitem_same)
  from assms(4) have
    "py_iter (case map_of kvs ''instruction'' of None \<Rightarrow> JArr [] | Some v \<Rightarrow> v) = Inr instrs"
    by simp
  from instruction_response_listed [OF this assms(6)] assms(5,7)
  have "instruction_response env (JObj kvs) =
          Inr (JObj (dict_setitem kvs ''instruction'' (JArr (final_instructions st))),
               JStr ''Executing instruction.'')"
    by simp
  from action_processing_instruction [OF assms(3) this]
  have ap: "action_processing env req conn (JObj kvs) = (jsonify env (JObj kvs), ?rows)"
    by (simp add: store_and_return_storable [OF assms(2) storable_JStr] unchanged)
  have ok': "jsonify env (JObj kvs) \<noteq> Inl RecursionError \<longrightarrow>
          chat_api env req conn = ((JObj kvs, 200), ?rows)"
    using jsonify_cases [of env "JObj kvs"]
    by (auto simp: chat_api_answers [OF assms(1)] ap)
  then have ok: "jsonify env (JObj kvs) \<noteq> Inl RecursionError \<longrightarrow>
          chat_api env req conn =
           ((JObj (dict_setitem kvs ''instruction'' (JArr (final_instructions st))), 200),
            ?rows)"
    by (simp only: unchanged)
  have ko: "jsonify env (JObj kvs) = Inl RecursionError \<longrightarrow>
          chat_api env req conn =
           ((JObj [(''action'', JStr ''conversation''),
                   (''speech'',
                    JStr ''I'm sorry, an unexpected error occurred. Please try again.'')], 500),
            ?rows)"
    by (simp add: chat_api_answers [OF assms(1)] ap unexpected_reply_def conversation_reply_def)
  from assms(5) have nospeech:
    "map_of (dict_setitem kvs ''instruction'' (JArr (final_instructions st))) ''speech'' = None"
    by (simp add: map_of_dict_setitem)
  have two: "kvs = [(''action'', JStr ''instruction''), (''instruction'', JArr instrs)] \<and>
          jsonify env (JObj kvs) \<noteq> Inl RecursionError \<longrightarrow>
            chat_api env req conn =
              ((JObj [(''action'', JStr ''instruction''),
                      (''instruction'', JArr (final_instructions st))], 200),
               ?rows)"
  proof
    assume k: "kvs = [(''action'', JStr ''instruction''), (''instruction'', JArr instrs)] \<and>
          jsonify env (JObj kvs) \<noteq> Inl RecursionError"
    with ok' have "chat_api env req conn = ((JObj kvs, 200), ?rows)"
      by blast
    also from k same have
      "JObj kvs = JObj [(''action'', JStr ''instruction''),
                        (''instruction'', JArr (final_instructions st))]"
      by simp
    finally show "chat_api env req conn =
              ((JObj [(''action'', JStr ''instruction''),
                      (''instruction'', JArr (final_instructions st))], 200),
               ?rows)" .
  qed
  have flat: "depth (JObj kvs) \<le> 4 \<longrightarrow> jsonify env (JObj kvs) \<noteq> Inl RecursionError"
    by (simp add: jsonify_def)
  show ?thesis
    by (rule conjI [OF ok conjI [OF ko conjI [OF same conjI [OF unchanged
          conjI [OF nospeech conjI [OF two flat]]]]]])
qed

text \<open>
  The model answers \<^verbatim>\<open>{"action":"instruction","instruction":[{"open_website":
  "wikipedia"}]}\<close>.
\<close>

theorem no_confirmation_executing_instruction_witness:
  \<open>chat_api
     (example_world
        ''{"action":"instruction","instruction":[{"open_website":"wikipedia"}]}''
        (decodes_to
           ''{"action":"instruction","instruction":[{"open_website":"wikipedia"}]}''
           (JObj [(''action'', JStr ''instruction''),
                  (''instruction'', JArr [JObj [(''open_website'', JStr ''wikipedia'')]])])))
     example_request []
   = ((JObj [(''action'', JStr ''instruction''),
             (''instruction'', JArr [JObj [(''open_website'', JStr ''wikipedia'')]])], 200),
      [\<lparr>user_id = 1, user_message = ''hello'',
        bot_response = ''Executing instruction.''\<rparr>])\<close>
proof -
  let ?text = \<open>''{"action":"instruction","instruction":[{"open_website":"wikipedia"}]}''\<close>
  let ?instrs = "[JObj [(''open_website'', JStr ''wikipedia'')]]"
  let ?kvs = "[(''action'', JStr ''instruction''), (''instruction'', JArr ?instrs)]"
  let ?env = "example_world ?text (decodes_to ?text (JObj ?kvs))"
  have clean: "replace ''```'' [] (replace ''```json'' [] (strip ?text)) = ?text"
    by (simp add: strip_def isspace_def)
  have a: "answers ?env example_request [] (JObj ?kvs)"
    unfolding answers_def model_response_def
    by (simp add: example_world_def example_request_def decodes_to_def clean)
  have b: "storable (message example_request)"
    by (simp add: example_request_def storable_JStr)
  have c: "process_instructions ?env 0 \<lparr>final_instructions = [], confirmation_speech = []\<rparr>
             ?instrs = Inr \<lparr>final_instructions = ?instrs, confirmation_speech = []\<rparr>"
    by (simp add: process_instruction_object)
  from no_confirmation_executing_instruction [OF a b _ _ _ c]
  show ?thesis by (simp add: example_request_def jsonify_def)
qed




text \<open>
  Claim C6, as stated, promises the three-key response for every command list with at
  least one confirmation. The handler commits the row and only then calls \<^verbatim>\<open>jsonify\<close>.
  The model answers \<^verbatim>\<open>{"action":"instruction","instruction":[{"get_time":1},
  {"open_website":[[...]]}]}\<close> with 987 lists inside each other, at 14:05: the decoder
  accepts the text, \<^verbatim>\<open>get_time\<close> produces its confirmation, the unknown command is passed
  through with its payload, the row with the confirmation is committed, \<^verbatim>\<open>jsonify\<close> raises
  \<^verbatim>\<open>RecursionError\<close> on the 990 levels of the response, and the request is answered with
  the apology (\<^verbatim>\<open>action = conversation\<close>) and status 500.
\<close>

theorem confirmation_then_apology_counterexample:
  \<open>chat_api
     (example_world
        (''{"action":"instruction","instruction":[{"get_time":1},{"open_website":''
           @ nested_text 986 @ ''}]}'')
        (decodes_to
           (''{"action":"instruction","instruction":[{"get_time":1},{"open_website":''
              @ nested_text 986 @ ''}]}'')
           (JObj [(''action'', JStr ''instruction''),
                  (''instruction'', JArr [JObj [(''get_time'', JInt 1)],
                                          JObj [(''open_website'', nested 986)]])])))
     example_request []
   = ((JObj [(''action'', JStr ''conversation''),
             (''speech'', JStr ''I'm sorry, an unexpected error occurred. Please try again.'')],
       500),
      [\<lparr>user_id = 1, user_message = ''hello'',
        bot_response = ''The current time is 02:05 PM.''\<rparr>])\<close>
proof -
  define t where
    \<open>t = ''{"action":"instruction","instruction":[{"get_time":1},{"open_website":''
           @ nested_text 986 @ ''}]}''\<close>
  let ?instrs = "[JObj [(''get_time'', JInt 1)], JObj [(''open_website'', nested 986)]]"
  let ?kvs = "[(''action'', JStr ''instruction''), (''instruction'', JArr ?instrs)]"
  let ?env = "example_world t (decodes_to t (JObj ?kvs))"
  let ?st = "\<lparr>final_instructions = [JObj [(''open_website'', nested 986)]],
               confirmation_speech = [''The current time is 02:05 PM.'']\<rparr>"
  let ?resp = "JObj [(''action'', JStr ''instruction_and_conversation''),
                     (''speech'', JStr ''The current time is 02:05 PM.''),
                     (''instruction'', JArr [JObj [(''open_website'', nested 986)]])]"
  have clean: "replace ''```'' [] (replace ''```json'' [] (strip t)) = t"
    unfolding t_def by (rule fences_absent) (simp_all add: isspace_def nested_text_def)
  have a: "answers ?env example_request [] (JObj ?kvs)"
    unfolding answers_def model_response_def
    by (simp add: example_world_def example_request_def decodes_to_def clean)
  have it: "py_iter (case map_of ?kvs ''instruction'' of None \<Rightarrow> JArr [] | Some v \<Rightarrow> v)
              = Inr ?instrs"
    by simp
  have c: "process_instructions ?env 0 \<lparr>final_instructions = [], confirmation_speech = []\<rparr>
             ?instrs = Inr ?st"
    by (simp add: process_instruction_object example_world_def afternoon_def directive_def
                  two_digits_def digit_def hour12_def)
  from instruction_response_listed [OF it c]
  have ir: "instruction_response ?env (JObj ?kvs)
              = Inr (?resp, JStr ''The current time is 02:05 PM.'')"
    by simp
  have j: "jsonify ?env ?resp = Inl RecursionError"
    by (simp add: jsonify_def depth_nested example_world_def)
  have "action_processing ?env example_request [] (JObj ?kvs)
     = (Inl RecursionError,
        [\<lparr>user_id = 1, user_message = ''hello'',
          bot_response = ''The current time is 02:05 PM.''\<rparr>])"
    by (simp add: action_processing_instruction [OF _ ir] store_and_return_storable
                  storable_JStr j example_request_def)
  with chat_api_answers [OF a] have "chat_api ?env example_request []
     = ((JObj [(''action'', JStr ''conversation''),
               (''speech'', JStr ''I'm sorry, an unexpected error occurred. Please try again.'')],
         500),
        [\<lparr>user_id = 1, user_message = ''hello'',
          bot_response = ''The current time is 02:05 PM.''\<rparr>])"
    by (simp add: unexpected_reply_def conversation_reply_def)
  then show ?thesis unfolding t_def .
qed

text \<open>
  Claim C6, amended. When the decoded object has \<^verbatim>\<open>action = "instruction"\<close>, its command list
  is processed without an exception, at least one confirmation is produced and the
  user's message is a value the table can store (a text, a number), the text written to
  the history is the confirmations joined by one space in the order of the loop. If
  \<^verbatim>\<open>jsonify\<close> serialises the response, the response is exactly
  \<^verbatim>\<open>{action: instruction_and_conversation, speech, instruction}\<close> with status 200, where
  \<^verbatim>\<open>speech\<close> is that same joined text and \<^verbatim>\<open>instruction\<close> is the list of client
  instructions. If \<^verbatim>\<open>jsonify\<close> raises (the client instructions are nested too deeply), the
  response is the apology with status 500, and the row is in the table all the same.
  A response whose list of client instructions has at most three levels (the list, its
  objects, one more level in their values) is always serialised.
\<close>

theorem confirmations_become_speech:
  assumes "answers env req conn (JObj kvs)"
    and "storable (message req)"
    and "map_of kvs ''action'' = Some (JStr ''instruction'')"
    and "map_of kvs ''instruction'' = Some (JArr instrs)"
    and "process_instructions env 0 \<lparr>final_instructions = [], confirmation_speech = []\<rparr> instrs
           = Inr st"
    and "confirmation_speech st \<noteq> []"
  shows
    "(jsonify env (JObj [(''action'', JStr ''instruction_and_conversation''),
                         (''speech'', JStr (foldl (\<lambda>a s. a @ '' '' @ s)
                                             (hd (confirmation_speech st))
                                             (tl (confirmation_speech st)))),
                         (''instruction'', JArr (final_instructions st))])
        \<noteq> Inl RecursionError
      \<longrightarrow> chat_api env req conn =
           ((JObj [(''action'', JStr ''instruction_and_conversation''),
                   (''speech'', JStr (foldl (\<lambda>a s. a @ '' '' @ s)
                                       (hd (confirmation_speech st))
                                       (tl (confirmation_speech st)))),
                   (''instruction'', JArr (final_instructions st))], 200),
            conn @ [\<lparr>user_id = session_user_id req,
                      user_message = sql_text env (message req),
                      bot_response = foldl (\<lambda>a s. a @ '' '' @ s)
                                       (hd (confirmation_speech st))
                                       (tl (confirmation_speech st))\<rparr>]))
     \<and> (jsonify env (JObj [(''action'', JStr ''instruction_and_conversation''),
                           (''speech'', JStr (foldl (\<lambda>a s. a @ '' '' @ s)
                                               (hd (confirmation_speech st))
                                               (tl (confirmation_speech st)))),
                           (''instruction'', JArr (final_instructions st))])
          = Inl RecursionError
      \<longrightarrow> chat_api env req conn =
           ((JObj [(''action'', JStr ''conversation''),
                   (''speech'',
                    JStr ''I'm sorry, an unexpected error occurred. Please try again.'')], 500),
            conn @ [\<lparr>user_id = session_user_id req,
                      user_message = sql_text env (message req),
                      bot_response = foldl (\<lambda>a s. a @ '' '' @ s)
                                       (hd (confirmation_speech st))
                                       (tl (confirmation_speech st))\<rparr>]))
     \<and> (depth (JArr (final_instructions st)) \<le> 3
      \<longrightarrow> jsonify env (JObj [(''action'', JStr ''instruction_and_conversation''),
                             (''speech'', JStr (foldl (\<lambda>a s. a @ '' '' @ s)
                                                 (hd (confirmation_speech st))
                                                 (tl (confirmation_speech st)))),
                             (''instruction'', JArr (final_instructions st))])
          \<noteq> Inl RecursionError)"
proof -
  let ?speech = "foldl (\<lambda>a s. a @ '' '' @ s) (hd (confirmation_speech st))
                   (tl (confirmation_speech st))"
  let ?resp = "JObj [(''action'', JStr ''instruction_and_conversation''),
                     (''speech'', JStr ?speech),
                     (''instruction'', JArr (final_instructions st))]"
  let ?rows = "conn @ [\<lparr>user_id = session_user_id req,
                         user_message = sql_text env (message req),
                         bot_response = ?speech\<rparr>]"
  have sp: "join '' '' (confirmation_speech st) = ?speech"
  proof (cases "confirmation_speech st")
    case Nil
    with assms(6) show ?thesis by simp
  next
    case (Cons x xs)
    then show ?thesis by (simp only: join_foldl list.sel)
  qed
  from assms(4) have
    "py_iter (case map_of kvs ''instruction'' of None \<Rightarrow> JArr [] | Some v \<Rightarrow> v) = Inr instrs"
    by simp
  from instruction_response_listed [OF this assms(5)] assms(6)
  have "instruction_response env (JObj kvs) = Inr (?resp, JStr ?speech)"
    by (simp add: sp)
  from action_processing_instruction [OF assms(3) this]
  have ap: "action_processing env req conn (JObj kvs) = (jsonify env ?resp, ?rows)"
    by (simp add: store_and_return_storable [OF assms(2) storable_JStr])
  have ok: "jsonify env ?resp \<noteq> Inl RecursionError
      \<longrightarrow> chat_api env req conn = ((?resp, 200), ?rows)"
    using jsonify_cases [of env ?resp]
    by (auto simp: chat_api_answers [OF assms(1)] ap)
  have ko: "jsonify env ?resp = Inl RecursionError
      \<longrightarrow> chat_api env req conn =
           ((JObj [(''action'', JStr ''conversation''),
                   (''speech'',
                    JStr ''I'm sorry, an unexpected error occurred. Please try again.'')], 500),
            ?rows)"
    by (simp add: chat_api_answers [OF assms(1)] ap unexpected_reply_def conversation_reply_def)
  have flat: "depth (JArr (final_instructions st)) \<le> 3
      \<longrightarrow> jsonify env ?resp \<noteq> Inl RecursionError"
    by (simp add: jsonify_def)
  show ?thesis by (rule conjI [OF ok conjI [OF ko flat]])
qed

text \<open>
  The model answers \<^verbatim>\<open>{"action":"instruction","instruction":[{"get_time":"current"},
  {"open_website":"wikipedia"},{"get_date":"year"}]}\<close> inside a code fence, at 14:05 on
  3 November 2026.
\<close>

theorem confirmations_become_speech_witness:
  \<open>chat_api
     (example_world
        ''```json{"action":"instruction","instruction":[{"get_time":"current"},{"open_website":"wikipedia"},{"get_date":"year"}]}```''
        (decodes_to
           ''{"action":"instruction","instruction":[{"get_time":"current"},{"open_website":"wikipedia"},{"get_date":"year"}]}''
           (JObj [(''action'', JStr ''instruction''),
                  (''instruction'', JArr [JObj [(''get_time'', JStr ''current'')],
                                          JObj [(''open_website'', JStr ''wikipedia'')],
                                          JObj [(''get_date'', JStr ''year'')]])])))
     example_request []
   = ((JObj [(''action'', JStr ''instruction_and_conversation''),
             (''speech'', JStr ''The current time is 02:05 PM. The current year is 2026.''),
             (''instruction'', JArr [JObj [(''open_website'', JStr ''wikipedia'')]])], 200),
      [\<lparr>user_id = 1, user_message = ''hello'',
        bot_response = ''The current time is 02:05 PM. The current year is 2026.''\<rparr>])\<close>
proof -
  let ?raw = \<open>''```json{"action":"instruction","instruction":[{"get_time":"current"},{"open_website":"wikipedia"},{"get_date":"year"}]}```''\<close>
  let ?clean = \<open>''{"action":"instruction","instruction":[{"get_time":"current"},{"open_website":"wikipedia"},{"get_date":"year"}]}''\<close>
  let ?instrs = "[JObj [(''get_time'', JStr ''current'')],
                  JObj [(''open_website'', JStr ''wikipedia'')],
                  JObj [(''get_date'', JStr ''year'')]]"
  let ?kvs = "[(''action'', JStr ''instruction''), (''instruction'', JArr ?instrs)]"
  let ?env = "example_world ?raw (decodes_to ?clean (JObj ?kvs))"
  let ?st = "\<lparr>final_instructions = [JObj [(''open_website'', JStr ''wikipedia'')]],
               confirmation_speech = [''The current time is 02:05 PM.'',
                                      ''The current year is 2026.'']\<rparr>"
  have clean: "replace ''```'' [] (replace ''```json'' [] (strip ?raw)) = ?clean"
    by (simp add: strip_def isspace_def)
  have a: "answers ?env example_request [] (JObj ?kvs)"
    unfolding answers_def model_response_def
    by (simp add: example_world_def example_request_def decodes_to_def clean)
  have b: "storable (message example_request)"
    by (simp add: example_request_def storable_JStr)
  have c: "process_instructions ?env 0 \<lparr>final_instructions = [], confirmation_speech = []\<rparr>
             ?instrs = Inr ?st"
    by (simp add: process_instruction_object example_world_def afternoon_def directive_def
                  two_digits_def digit_def hour12_def str_nat.simps)
  from confirmations_become_speech [OF a b _ _ c]
  show ?thesis by (simp add: example_request_def)
qed

section \<open>The weather adapter\<close>

text \<open>
  Claim C3 asks that no adapter ever raises. \<^verbatim>\<open>get_youtube_video_url\<close> and
  \<^verbatim>\<open>get_spotify_track_url\<close> catch every exception (\<open>youtube_never_raises\<close>,
  \<open>spotify_never_raises\<close>), and the URL is absent whenever their body raised.
  \<^verbatim>\<open>get_weather\<close> catches \<^verbatim>\<open>RequestException\<close> and \<^verbatim>\<open>KeyError\<close> only. When the service
  answers with status 200 and the body \<^verbatim>\<open>{"weather": [], "main": {"temp": 20}}\<close>,
  \<^verbatim>\<open>data['weather'][0]\<close> raises \<^verbatim>\<open>IndexError\<close>, which leaves the adapter and ends the
  loop: for the commands \<^verbatim>\<open>[{"get_time":"current"}, {"get_weather":"Paris"}]\<close> the
  confirmation of the first command is lost, the response is the apology with status
  500, and nothing is written to the history.
\<close>

theorem get_weather_raises_on_empty_weather_list:
  \<open>get_weather
     ((example_world [] (\<lambda>text. None))
        \<lparr>WEATHER_API_KEY := Some ''key'',
         requests_get := (\<lambda>i url params. Inr empty_weather_list)\<rparr>)
     1 (JStr ''Paris'')
    = Inl IndexError
   \<and> process_instructions
       ((example_world [] (\<lambda>text. None))
          \<lparr>WEATHER_API_KEY := Some ''key'',
           requests_get := (\<lambda>i url params. Inr empty_weather_list)\<rparr>)
       0 \<lparr>final_instructions = [], confirmation_speech = []\<rparr>
       [JObj [(''get_time'', JStr ''current'')], JObj [(''get_weather'', JStr ''Paris'')]]
    = Inl IndexError
   \<and> chat_api
       ((example_world
           ''{"action":"instruction","instruction":[{"get_time":"current"},{"get_weather":"Paris"}]}''
           (decodes_to
              ''{"action":"instruction","instruction":[{"get_time":"current"},{"get_weather":"Paris"}]}''
              (JObj [(''action'', JStr ''instruction''),
                     (''instruction'', JArr [JObj [(''get_time'', JStr ''current'')],
                                             JObj [(''get_weather'', JStr ''Paris'')]])])))
          \<lparr>WEATHER_API_KEY := Some ''key'',
           requests_get := (\<lambda>i url params. Inr empty_weather_list)\<rparr>)
       example_request []
    = ((JObj [(''action'', JStr ''conversation''),
              (''speech'', JStr ''I'm sorry, an unexpected error occurred. Please try again.'')],
        500), [])\<close>
  by (simp add: chat_api_def chat_try_def model_response_def action_processing_def
                instruction_response_def process_instruction_object
                get_weather_def weather_try_def response_json_of_def empty_weather_list_def
                unexpected_reply_def conversation_reply_def
                example_world_def example_request_def decodes_to_def strip_def isspace_def)

text \<open>
  The failures that \<^verbatim>\<open>get_weather\<close> does catch become a message: a missing key, a
  \<^verbatim>\<open>RequestException\<close> of the request, of the status or of the body, and a \<^verbatim>\<open>KeyError\<close>.
\<close>

lemma get_weather_caught:
  "(WEATHER_API_KEY env = None \<or> WEATHER_API_KEY env = Some [] \<longrightarrow>
      get_weather env i city = Inr ''Weather API key is not configured.'')
   \<and> (WEATHER_API_KEY env = Some key \<and> key \<noteq> [] \<and>
      weather_try env key i city = Inl RequestException \<longrightarrow>
      get_weather env i city =
        Inr (''Sorry, I couldn't fetch the weather for '' @ py_format env city @ ''.''))
   \<and> (WEATHER_API_KEY env = Some key \<and> key \<noteq> [] \<and>
      weather_try env key i city = Inl KeyError \<longrightarrow>
      get_weather env i city =
        Inr (''Sorry, I couldn't find weather data for '' @ py_format env city @ ''.''))
   \<and> (WEATHER_API_KEY env = Some key \<and> key \<noteq> [] \<and>
      weather_try env key i city = Inl e \<and> e \<noteq> RequestException \<and> e \<noteq> KeyError \<longrightarrow>
      get_weather env i city = Inl e)"
  by (auto simp: get_weather_def)

lemma adapters_with_catch_all_return_no_url_on_failure:
  "(youtube env = Some yt \<and> youtube_try env yt i q = Inl e \<longrightarrow>
      get_youtube_video_url env i q =
        Inr (None, ''Sorry, I couldn't find a video for '' @ quoted (py_format env q) @
                   '' on YouTube.''))
   \<and> (spotify env = Some sp \<and> spotify_try env sp i q = Inl e \<longrightarrow>
      get_spotify_track_url env i q =
        Inr (None, ''Sorry, I couldn't play '' @ quoted (py_format env q) @ '' on Spotify.''))"
  by (simp add: get_youtube_video_url_def get_spotify_track_url_def)

end
